theory Spec2Isabelle
  imports Main "HOL-Library.Log_Nat"
begin

section \<open>go-banking: customers, accounts and money transfers\<close>

text \<open>
  A shallow embedding of the Go program: the models (\<^verbatim>\<open>models/models.go\<close>), the in-memory
  store (\<^verbatim>\<open>store/store.go\<close>), the simulated partner bank (\<^verbatim>\<open>package bankz\<close>) and the two
  handlers of \<^verbatim>\<open>package main\<close> that write to the store, \<^verbatim>\<open>createCustomer\<close> and
  \<^verbatim>\<open>transferMoney\<close>.

  Conventions of the embedding:
  \<^item> a Go struct is a record, a Go map is a partial function, \<^verbatim>\<open>(v, ok)\<close> and
    \<^verbatim>\<open>(v, err)\<close> results are options and sums (\<open>Inl\<close> carries the error text);
  \<^item> \<^verbatim>\<open>float64\<close> is IEEE 754 binary64 with round-to-nearest-even, written out below;
  \<^item> what the program reads from its environment, the clock (\<^verbatim>\<open>time.Now()\<close>) and the
    UUID generator (\<^verbatim>\<open>uuid.New()\<close>), is a stream of values held in the state, one value
    consumed per call, in the order of the calls of the source;
  \<^item> a handler is a function from the request and the state to the HTTP response and
    the new state; one handler runs at a time (the mutex of the store and the
    interleaving of concurrent requests are outside the embedding);
  \<^item> \<^verbatim>\<open>fmt.Printf\<close> logging is left out.
\<close>

subsection \<open>float64: IEEE 754 binary64\<close>

text \<open>
  A \<^verbatim>\<open>float64\<close> is a rational number, an infinity or NaN. The two zeros are one value
  (Go compares them equal, and the program neither divides nor prints the sign of a
  zero). Every arithmetic operation computes the exact rational result and rounds it to
  the nearest binary64 number, ties to even: 53 significant bits, least exponent -1022
  (below it the spacing stays \<open>2 ^ -1074\<close>), overflow to infinity from \<open>2 ^ 1024\<close> on.
  Each operation of the source is rounded on its own (no multiplication is fused with an
  addition).
\<close>

datatype float64 = Finite rat | PInf | NInf | NaN

definition pow2 :: "int \<Rightarrow> rat" where
  "pow2 k = (if 0 \<le> k then 2 ^ nat k else 1 / 2 ^ nat (- k))"

text \<open>\<open>ilog2 a\<close> is the exponent \<open>e\<close> with \<open>2 ^ e \<le> a < 2 ^ (e + 1)\<close>, for \<open>0 < a\<close>.\<close>

definition ilog2 :: "rat \<Rightarrow> int" where
  "ilog2 a =
     (if 1 \<le> a then int (floorlog 2 (nat \<lfloor>a\<rfloor>)) - 1
      else (let b = int (floorlog 2 (nat \<lfloor>1 / a\<rfloor>))
            in if a = pow2 (1 - b) then 1 - b else - b))"

definition round_half_even :: "rat \<Rightarrow> int" where
  "round_half_even n =
     (let f = \<lfloor>n\<rfloor>; r = n - of_int f
      in if r < 1 / 2 then f else if 1 / 2 < r then f + 1
         else if even f then f else f + 1)"

definition round64 :: "rat \<Rightarrow> float64" where
  "round64 x =
     (if x = 0 then Finite 0
      else (let a = \<bar>x\<bar>;
                e = max (ilog2 a) (- 1022);
                q = pow2 (e - 52);
                y = of_int (round_half_even (a / q)) * q
            in if pow2 1024 \<le> y then (if 0 < x then PInf else NInf)
               else Finite (if 0 < x then y else - y)))"

text \<open>A constant of the source text (\<^verbatim>\<open>0.0005\<close>, \<^verbatim>\<open>500.0\<close>) converted to \<^verbatim>\<open>float64\<close>.\<close>

definition f64 :: "rat \<Rightarrow> float64" where
  "f64 x = round64 x"

fun fneg :: "float64 \<Rightarrow> float64" where
  "fneg (Finite x) = Finite (- x)"
| "fneg PInf = NInf"
| "fneg NInf = PInf"
| "fneg NaN = NaN"

fun fadd :: "float64 \<Rightarrow> float64 \<Rightarrow> float64" where
  "fadd NaN _ = NaN"
| "fadd _ NaN = NaN"
| "fadd PInf NInf = NaN"
| "fadd NInf PInf = NaN"
| "fadd PInf _ = PInf"
| "fadd _ PInf = PInf"
| "fadd NInf _ = NInf"
| "fadd _ NInf = NInf"
| "fadd (Finite x) (Finite y) = round64 (x + y)"

definition fsub :: "float64 \<Rightarrow> float64 \<Rightarrow> float64" where
  "fsub x y = fadd x (fneg y)"

fun fmul :: "float64 \<Rightarrow> float64 \<Rightarrow> float64" where
  "fmul NaN _ = NaN"
| "fmul _ NaN = NaN"
| "fmul (Finite x) (Finite y) = round64 (x * y)"
| "fmul (Finite x) PInf = (if x = 0 then NaN else if 0 < x then PInf else NInf)"
| "fmul (Finite x) NInf = (if x = 0 then NaN else if 0 < x then NInf else PInf)"
| "fmul PInf (Finite y) = (if y = 0 then NaN else if 0 < y then PInf else NInf)"
| "fmul NInf (Finite y) = (if y = 0 then NaN else if 0 < y then NInf else PInf)"
| "fmul PInf PInf = PInf"
| "fmul NInf NInf = PInf"
| "fmul PInf NInf = NInf"
| "fmul NInf PInf = NInf"

text \<open>The comparisons \<^verbatim>\<open><\<close>, \<^verbatim>\<open><=\<close> and \<^verbatim>\<open>>\<close>: every comparison with NaN is false.\<close>

fun flt :: "float64 \<Rightarrow> float64 \<Rightarrow> bool" where
  "flt NaN _ = False"
| "flt _ NaN = False"
| "flt (Finite x) (Finite y) = (x < y)"
| "flt _ NInf = False"
| "flt PInf _ = False"
| "flt NInf _ = True"
| "flt _ PInf = True"

fun fle :: "float64 \<Rightarrow> float64 \<Rightarrow> bool" where
  "fle NaN _ = False"
| "fle _ NaN = False"
| "fle (Finite x) (Finite y) = (x \<le> y)"
| "fle NInf _ = True"
| "fle _ PInf = True"
| "fle _ NInf = False"
| "fle PInf _ = False"

definition fgt :: "float64 \<Rightarrow> float64 \<Rightarrow> bool" where
  "fgt x y = flt y x"

subsection \<open>Time and formatting\<close>

text \<open>
  A \<^verbatim>\<open>time.Time\<close> is its number of nanoseconds since the epoch (\<^verbatim>\<open>UnixNano\<close>), a
  \<^verbatim>\<open>time.Duration\<close> a number of nanoseconds.
\<close>

type_synonym time = int

definition Hour :: int where
  "Hour = 3600000000000"

definition Add :: "time \<Rightarrow> int \<Rightarrow> time" where
  "Add t d = t + d"

definition After :: "time \<Rightarrow> time \<Rightarrow> bool" where
  "After t u = (u < t)"

definition Before :: "time \<Rightarrow> time \<Rightarrow> bool" where
  "Before t u = (t < u)"

text \<open>The verb \<^verbatim>\<open>%d\<close> of \<^verbatim>\<open>fmt.Sprintf\<close>: an integer in decimal.\<close>

fun digits :: "nat \<Rightarrow> string" where
  "digits n =
     (if n < 10 then [''0123456789'' ! n]
      else digits (n div 10) @ [''0123456789'' ! (n mod 10)])"

declare digits.simps [simp del]

definition fmt_d :: "int \<Rightarrow> string" where
  "fmt_d i = (if i < 0 then ''-'' @ digits (nat (- i)) else digits (nat i))"

subsection \<open>Regular expressions\<close>

text \<open>
  The two patterns of \<^verbatim>\<open>createCustomer\<close> are anchored at both ends, so
  \<^verbatim>\<open>MatchString\<close> decides whether the whole string is in the language of the
  pattern; it is computed with derivatives. Both patterns use ASCII classes only.
\<close>

datatype regex = Zero | One | Atom "char \<Rightarrow> bool" | Alt regex regex
  | Times regex regex | Star regex

definition Plus :: "regex \<Rightarrow> regex" where
  "Plus r = Times r (Star r)"

fun nullable :: "regex \<Rightarrow> bool" where
  "nullable Zero = False"
| "nullable One = True"
| "nullable (Atom p) = False"
| "nullable (Alt r s) = (nullable r \<or> nullable s)"
| "nullable (Times r s) = (nullable r \<and> nullable s)"
| "nullable (Star r) = True"

fun deriv :: "char \<Rightarrow> regex \<Rightarrow> regex" where
  "deriv c Zero = Zero"
| "deriv c One = Zero"
| "deriv c (Atom p) = (if p c then One else Zero)"
| "deriv c (Alt r s) = Alt (deriv c r) (deriv c s)"
| "deriv c (Times r s) =
     (if nullable r then Alt (Times (deriv c r) s) (deriv c s)
      else Times (deriv c r) s)"
| "deriv c (Star r) = Times (deriv c r) (Star r)"

fun MatchString :: "regex \<Rightarrow> string \<Rightarrow> bool" where
  "MatchString r [] = nullable r"
| "MatchString r (c # cs) = MatchString (deriv c r) cs"

definition in_range :: "char \<Rightarrow> char \<Rightarrow> char \<Rightarrow> bool" where
  "in_range lo hi c = ((of_char lo :: nat) \<le> of_char c \<and> (of_char c :: nat) \<le> of_char hi)"

definition letter :: "char \<Rightarrow> bool" where
  "letter c = (in_range CHR ''a'' CHR ''z'' c \<or> in_range CHR ''A'' CHR ''Z'' c)"

definition digit :: "char \<Rightarrow> bool" where
  "digit c = in_range CHR ''0'' CHR ''9'' c"

text \<open>\<^verbatim>\<open>\s\<close> is tab, newline, form feed, carriage return and space.\<close>

definition space :: "char \<Rightarrow> bool" where
  "space c = ((of_char c :: nat) \<in> {9, 10, 12, 13, 32})"

text \<open>\<^verbatim>\<open>^[a-zA-Z\s]+$\<close>\<close>

definition nameRegex :: regex where
  "nameRegex = Plus (Atom (\<lambda>c. letter c \<or> space c))"

text \<open>\<^verbatim>\<open>^[a-zA-Z0-9._%+-]+@[a-zA-Z0-9.-]+\.[a-zA-Z]{2,}$\<close>\<close>

definition emailRegex :: regex where
  "emailRegex =
     Times (Plus (Atom (\<lambda>c. letter c \<or> digit c \<or> c \<in> set ''._%+-'')))
    (Times (Atom (\<lambda>c. c = CHR ''@''))
    (Times (Plus (Atom (\<lambda>c. letter c \<or> digit c \<or> c \<in> set ''.-'')))
    (Times (Atom (\<lambda>c. c = CHR ''.''))
    (Times (Atom letter) (Plus (Atom letter))))))"

subsection \<open>Models\<close>

text \<open>
  The structs of \<^verbatim>\<open>models/models.go\<close>. Field names carry the initial of their struct,
  since several structs have an \<^verbatim>\<open>ID\<close>.
\<close>

record Customer =
  c_ID :: string
  c_Name :: string
  c_Email :: string

record Account =
  a_ID :: string
  a_CustomerID :: string
  a_Type :: string
  a_Balance :: float64
  a_CreatedAt :: time

record Transaction =
  t_ID :: string
  t_AccountID :: string
  t_CustomerID :: string
  t_Type :: string
  t_Amount :: float64
  t_FromAccountID :: string
  t_ToAccountID :: string
  t_CreatedAt :: time

subsection \<open>The store\<close>

record Store =
  customers :: "string \<rightharpoonup> Customer"
  accounts :: "string \<rightharpoonup> Account"
  transactions :: "string \<rightharpoonup> Transaction"

definition AddCustomer :: "Customer \<Rightarrow> Store \<Rightarrow> Store" where
  "AddCustomer customer s = s\<lparr>customers := (customers s)(c_ID customer \<mapsto> customer)\<rparr>"

definition GetCustomerByID :: "Store \<Rightarrow> string \<Rightarrow> Customer option" where
  "GetCustomerByID s i = customers s i"

definition AddAccount :: "Account \<Rightarrow> Store \<Rightarrow> Store" where
  "AddAccount account s = s\<lparr>accounts := (accounts s)(a_ID account \<mapsto> account)\<rparr>"

definition GetAccountByID :: "Store \<Rightarrow> string \<Rightarrow> Account option" where
  "GetAccountByID s i = accounts s i"

definition UpdateAccount :: "Account \<Rightarrow> Store \<Rightarrow> Store" where
  "UpdateAccount account s = s\<lparr>accounts := (accounts s)(a_ID account \<mapsto> account)\<rparr>"

definition AddTransaction :: "Transaction \<Rightarrow> Store \<Rightarrow> Store" where
  "AddTransaction transaction s =
     s\<lparr>transactions := (transactions s)(t_ID transaction \<mapsto> transaction)\<rparr>"

subsection \<open>The partner bank (package bankz)\<close>

record MockAccount =
  m_AccountID :: string
  m_Balance :: float64

record Token =
  AccessToken :: string
  ExpiresAt :: time

record MockClient =
  bz_accounts :: "string \<rightharpoonup> MockAccount"
  clientID :: string
  clientSecret :: string
  token :: "Token option"
  tokenEndpoint :: string

definition NewMockClient :: MockClient where
  "NewMockClient =
     \<lparr>bz_accounts =
        [''bankz-acc-123'' \<mapsto> \<lparr>m_AccountID = ''bankz-acc-123'', m_Balance = f64 1000\<rparr>,
         ''bankz-acc-456'' \<mapsto> \<lparr>m_AccountID = ''bankz-acc-456'', m_Balance = f64 500\<rparr>],
      clientID = ''mock-client-id'',
      clientSecret = ''mock-client-secret'',
      token = None,
      tokenEndpoint = ''https://mock.bankz.com/oauth/token''\<rparr>"

subsection \<open>The state of the program and its environment\<close>

text \<open>
  \<open>GlobalStore\<close> and \<open>bankzClient\<close> are the two global variables. \<open>clock\<close> is the sequence
  of values that the calls of \<^verbatim>\<open>time.Now()\<close> return and \<open>ticks\<close> the number of calls made
  so far; \<open>uuid_source\<close> and \<open>uuid_count\<close> are the same for \<^verbatim>\<open>uuid.New().String()\<close>.
\<close>

record World =
  GlobalStore :: Store
  bankzClient :: MockClient
  clock :: "nat \<Rightarrow> time"
  ticks :: nat
  uuid_source :: "nat \<Rightarrow> string"
  uuid_count :: nat

definition time_Now :: "World \<Rightarrow> time \<times> World" where
  "time_Now w = (clock w (ticks w), w\<lparr>ticks := Suc (ticks w)\<rparr>)"

definition uuid_New :: "World \<Rightarrow> string \<times> World" where
  "uuid_New w = (uuid_source w (uuid_count w), w\<lparr>uuid_count := Suc (uuid_count w)\<rparr>)"

text \<open>
  \<^verbatim>\<open>GetToken\<close>. The clock is read once to test a cached token, and, when a token is
  minted, once for its name and once more for its expiry.
\<close>

definition mintToken :: "World \<Rightarrow> (string + string) \<times> World" where
  "mintToken w =
     (let c = bankzClient w in
      if clientID c \<noteq> ''mock-client-id'' \<or> clientSecret c \<noteq> ''mock-client-secret''
      then (Inl ''invalid client credentials'', w)
      else (let (t1, w1) = time_Now w;
                tokenID = ''token-'' @ fmt_d t1;
                (t2, w2) = time_Now w1;
                tk = \<lparr>AccessToken = tokenID, ExpiresAt = Add t2 (1 * Hour)\<rparr>
            in (Inr (AccessToken tk), w2\<lparr>bankzClient := c\<lparr>token := Some tk\<rparr>\<rparr>)))"

definition GetToken :: "World \<Rightarrow> (string + string) \<times> World" where
  "GetToken w =
     (case token (bankzClient w) of
        None \<Rightarrow> mintToken w
      | Some tk \<Rightarrow>
          (let (now, w1) = time_Now w in
           if After (ExpiresAt tk) now then (Inr (AccessToken tk), w1)
           else mintToken w1))"

text \<open>\<^verbatim>\<open>validateToken\<close>: the clock is read only when the first two tests do not decide.\<close>

definition validateToken :: "string \<Rightarrow> World \<Rightarrow> string option \<times> World" where
  "validateToken tok w =
     (case token (bankzClient w) of
        None \<Rightarrow> (Some ''invalid or expired token'', w)
      | Some tk \<Rightarrow>
          if AccessToken tk \<noteq> tok then (Some ''invalid or expired token'', w)
          else (let (now, w1) = time_Now w in
                if Before (ExpiresAt tk) now then (Some ''invalid or expired token'', w1)
                else (None, w1)))"

definition GetBalance :: "string \<Rightarrow> string \<Rightarrow> World \<Rightarrow> (string + float64) \<times> World" where
  "GetBalance accountID tok w =
     (case validateToken tok w of
        (Some err, w1) \<Rightarrow> (Inl err, w1)
      | (None, w1) \<Rightarrow>
          (case bz_accounts (bankzClient w1) accountID of
             None \<Rightarrow> (Inl (''Bank Z account '' @ accountID @ '' not found''), w1)
           | Some account \<Rightarrow> (Inr (m_Balance account), w1)))"

definition InitiateTransfer ::
  "string \<Rightarrow> string \<Rightarrow> string \<Rightarrow> float64 \<Rightarrow> World \<Rightarrow> (string + string) \<times> World" where
  "InitiateTransfer fromAccountID toAccountID tok amount w =
     (case validateToken tok w of
        (Some err, w1) \<Rightarrow> (Inl err, w1)
      | (None, w1) \<Rightarrow>
          if fle amount (f64 0) then (Inl ''amount must be positive'', w1)
          else (case bz_accounts (bankzClient w1) toAccountID of
             None \<Rightarrow>
               (Inl (''destination Bank Z account '' @ toAccountID @ '' not found''), w1)
           | Some account \<Rightarrow>
               (let c = bankzClient w1;
                    w2 = w1\<lparr>bankzClient := c\<lparr>bz_accounts := (bz_accounts c)(toAccountID \<mapsto>
                            \<lparr>m_AccountID = toAccountID,
                             m_Balance = fadd (m_Balance account) amount\<rparr>)\<rparr>\<rparr>;
                    (t, w3) = time_Now w2;
                    transactionID = ''bankz-tx-'' @ fmt_d t
                in (Inr transactionID, w3))))"

subsection \<open>The handlers (package main)\<close>

text \<open>
  A request body is \<open>None\<close> when \<^verbatim>\<open>ShouldBindJSON\<close> fails. A response is the HTTP status
  with the JSON value handed to \<^verbatim>\<open>c.JSON\<close>.
\<close>

record CustomerRequest =
  Name :: string
  Email :: string

record TransferRequest =
  FromAccountID :: string
  ToAccountID :: string
  Amount :: float64

datatype json =
    H_errors "string list"
  | H_error string
  | CustomerCreated string string string
  | TransferDone string string

type_synonym response = "nat \<times> json"

definition StatusCreated :: nat where "StatusCreated = 201"
definition StatusBadRequest :: nat where "StatusBadRequest = 400"
definition StatusNotFound :: nat where "StatusNotFound = 404"
definition StatusInternalServerError :: nat where "StatusInternalServerError = 500"

definition customerErrors :: "CustomerRequest \<Rightarrow> string list" where
  "customerErrors req =
     (if Name req = [] then [''Name cannot be empty''] else [])
   @ (if Name req \<noteq> [] \<and> \<not> MatchString nameRegex (Name req)
      then [''Name must contain only letters and spaces''] else [])
   @ (if Email req = [] then [''Email cannot be empty''] else [])
   @ (if Email req \<noteq> [] \<and> \<not> MatchString emailRegex (Email req)
      then [''Invalid email format''] else [])"

definition createCustomer :: "CustomerRequest option \<Rightarrow> World \<Rightarrow> response \<times> World" where
  "createCustomer body w =
     (case body of
        None \<Rightarrow> ((StatusBadRequest, H_errors [''Invalid request body'']), w)
      | Some req \<Rightarrow>
         (let errors = customerErrors req in
          if length errors > 0 then ((StatusBadRequest, H_errors errors), w)
          else
           (let (customerID, w1) = uuid_New w;
                (currentAccountID, w2) = uuid_New w1;
                (savingsAccountID, w3) = uuid_New w2;
                (bonusTransactionID, w4) = uuid_New w3;
                (now, w5) = time_Now w4;
                customer = \<lparr>c_ID = customerID, c_Name = Name req, c_Email = Email req\<rparr>;
                s1 = AddCustomer customer (GlobalStore w5);
                currentAccount = \<lparr>a_ID = currentAccountID, a_CustomerID = customerID,
                  a_Type = ''current'', a_Balance = f64 0, a_CreatedAt = now\<rparr>;
                s2 = AddAccount currentAccount s1;
                savingsAccount = \<lparr>a_ID = savingsAccountID, a_CustomerID = customerID,
                  a_Type = ''savings'', a_Balance = f64 500, a_CreatedAt = now\<rparr>;
                s3 = AddAccount savingsAccount s2;
                bonusTransaction = \<lparr>t_ID = bonusTransactionID, t_AccountID = savingsAccountID,
                  t_CustomerID = customerID, t_Type = ''bonus'', t_Amount = f64 500,
                  t_FromAccountID = [], t_ToAccountID = [], t_CreatedAt = now\<rparr>;
                s4 = AddTransaction bonusTransaction s3
            in ((StatusCreated, CustomerCreated customerID currentAccountID savingsAccountID),
                w5\<lparr>GlobalStore := s4\<rparr>))))"

text \<open>\<^verbatim>\<open>transferMoney\<close>, the checks of the request body: every failed check adds a message.\<close>

definition transferErrors :: "TransferRequest \<Rightarrow> string list" where
  "transferErrors req =
     (if FromAccountID req = [] then [''From account ID cannot be empty''] else [])
   @ (if ToAccountID req = [] then [''To account ID cannot be empty''] else [])
   @ (if fle (Amount req) (f64 0) then [''Amount must be positive''] else [])
   @ (if FromAccountID req = ToAccountID req \<and> FromAccountID req \<noteq> []
      then [''Cannot transfer to the same account''] else [])"

text \<open>
  The customer, the token and the source account. The result is the response of an
  early return, or the token with the source account.
\<close>

definition checkSource ::
  "string \<Rightarrow> TransferRequest \<Rightarrow> World \<Rightarrow> (response + string \<times> Account) \<times> World" where
  "checkSource customerID req w =
     (case GetCustomerByID (GlobalStore w) customerID of
        None \<Rightarrow> (Inl (StatusNotFound, H_error ''Customer not found''), w)
      | Some _ \<Rightarrow>
         (case GetToken w of
            (Inl err, w1) \<Rightarrow>
              (Inl (StatusInternalServerError, H_error ''Failed to authenticate with Bank Z''), w1)
          | (Inr tok, w1) \<Rightarrow>
             (case GetAccountByID (GlobalStore w1) (FromAccountID req) of
                None \<Rightarrow>
                  (Inl (StatusBadRequest,
                     H_error (''Source account '' @ FromAccountID req @ '' not found'')), w1)
              | Some fromAccount \<Rightarrow>
                  if a_CustomerID fromAccount \<noteq> customerID
                  then (Inl (StatusBadRequest,
                     H_error ''Source account does not belong to the customer''), w1)
                  else (Inr (tok, fromAccount), w1))))"

text \<open>
  The destination account. \<open>External\<close> stands for \<^verbatim>\<open>isExternalTransfer = true\<close>, and
  \<open>Internal toAccount\<close> for \<^verbatim>\<open>isExternalTransfer = false\<close> with the account found.
\<close>

datatype destination = Internal Account | External

definition resolveDestination ::
  "string \<Rightarrow> TransferRequest \<Rightarrow> string \<Rightarrow> World \<Rightarrow> (response + destination) \<times> World" where
  "resolveDestination customerID req tok w =
     (case GetAccountByID (GlobalStore w) (ToAccountID req) of
        None \<Rightarrow>
         (case GetBalance (ToAccountID req) tok w of
            (Inr _, w1) \<Rightarrow> (Inr External, w1)
          | (Inl err, w1) \<Rightarrow>
              (Inl (StatusBadRequest,
                 H_error (''Destination account '' @ ToAccountID req @ '' not found'')), w1))
      | Some toAccount \<Rightarrow>
          if a_CustomerID toAccount \<noteq> customerID
          then (Inl (StatusBadRequest,
             H_error ''Destination account does not belong to the customer''), w)
          else (Inr (Internal toAccount), w))"

text \<open>The transfer to an account of the partner bank.\<close>

definition externalTransfer ::
  "string \<Rightarrow> TransferRequest \<Rightarrow> string \<Rightarrow> Account \<Rightarrow> World \<Rightarrow> response \<times> World" where
  "externalTransfer customerID req tok fromAccount w =
     (if flt (a_Balance fromAccount) (Amount req)
      then ((StatusBadRequest, H_error ''Insufficient funds''), w)
      else
       (case InitiateTransfer (a_ID fromAccount) (ToAccountID req) tok (Amount req) w of
          (Inl err, w1) \<Rightarrow> ((StatusBadRequest, H_error err), w1)
        | (Inr transactionID, w1) \<Rightarrow>
           (let fromAccount' =
                  fromAccount\<lparr>a_Balance := fsub (a_Balance fromAccount) (Amount req)\<rparr>;
                s1 = UpdateAccount fromAccount' (GlobalStore w1);
                (now, w2) = time_Now w1;
                s2 = AddTransaction
                  \<lparr>t_ID = transactionID, t_AccountID = a_ID fromAccount',
                   t_CustomerID = customerID, t_Type = ''bankz_transfer'',
                   t_Amount = Amount req, t_FromAccountID = a_ID fromAccount',
                   t_ToAccountID = ToAccountID req, t_CreatedAt = now\<rparr> s1
            in ((StatusCreated, TransferDone transactionID ''success''),
                w2\<lparr>GlobalStore := s2\<rparr>))))"

text \<open>
  The transfer between two accounts of the store. The constants \<^verbatim>\<open>0.0005\<close> and
  \<^verbatim>\<open>0.005\<close> of the source are the nearest \<^verbatim>\<open>float64\<close> numbers.
\<close>

definition const_0_0005 :: float64 where
  "const_0_0005 = f64 (5 / 10000)"

definition const_0_005 :: float64 where
  "const_0_005 = f64 (5 / 1000)"

definition internalTransfer ::
  "string \<Rightarrow> TransferRequest \<Rightarrow> Account \<Rightarrow> Account \<Rightarrow> World \<Rightarrow> response \<times> World" where
  "internalTransfer customerID req fromAccount toAccount w =
     (let fee = (if a_Type fromAccount = ''current''
                 then fmul (Amount req) const_0_0005 else f64 0);
          totalDeduction = fadd (Amount req) fee
      in if flt (a_Balance fromAccount) totalDeduction
         then ((StatusBadRequest, H_error ''Insufficient funds''), w)
         else
          (let interest = (if a_Type toAccount = ''savings''
                           then fmul (Amount req) const_0_005 else f64 0);
               fromAccount' =
                 fromAccount\<lparr>a_Balance := fsub (a_Balance fromAccount) totalDeduction\<rparr>;
               toAccount' =
                 toAccount\<lparr>a_Balance := fadd (a_Balance toAccount) (fadd (Amount req) interest)\<rparr>;
               s1 = UpdateAccount fromAccount' (GlobalStore w);
               s2 = UpdateAccount toAccount' s1;
               (now, w1) = time_Now w;
               (transferTransactionID, w2) = uuid_New w1;
               s3 = AddTransaction
                 \<lparr>t_ID = transferTransactionID, t_AccountID = a_ID fromAccount',
                  t_CustomerID = customerID, t_Type = ''transfer'', t_Amount = Amount req,
                  t_FromAccountID = a_ID fromAccount', t_ToAccountID = a_ID toAccount',
                  t_CreatedAt = now\<rparr> s2;
               (s4, w3) =
                 (if fgt fee (f64 0)
                  then (let (feeTransactionID, w') = uuid_New w2
                        in (AddTransaction
                             \<lparr>t_ID = feeTransactionID, t_AccountID = a_ID fromAccount',
                              t_CustomerID = customerID, t_Type = ''fee'', t_Amount = fee,
                              t_FromAccountID = [], t_ToAccountID = [],
                              t_CreatedAt = now\<rparr> s3, w'))
                  else (s3, w2));
               (s5, w4) =
                 (if fgt interest (f64 0)
                  then (let (interestTransactionID, w') = uuid_New w3
                        in (AddTransaction
                             \<lparr>t_ID = interestTransactionID, t_AccountID = a_ID toAccount',
                              t_CustomerID = customerID, t_Type = ''interest'',
                              t_Amount = interest, t_FromAccountID = [], t_ToAccountID = [],
                              t_CreatedAt = now\<rparr> s4, w'))
                  else (s4, w3))
           in ((StatusCreated, TransferDone transferTransactionID ''success''),
               w4\<lparr>GlobalStore := s5\<rparr>)))"

definition transferMoney ::
  "string \<Rightarrow> TransferRequest option \<Rightarrow> World \<Rightarrow> response \<times> World" where
  "transferMoney customerID body w =
     (case body of
        None \<Rightarrow> ((StatusBadRequest, H_errors [''Invalid request body'']), w)
      | Some req \<Rightarrow>
         (let errors = transferErrors req in
          if length errors > 0 then ((StatusBadRequest, H_errors errors), w)
          else
           (case checkSource customerID req w of
              (Inl r, w1) \<Rightarrow> (r, w1)
            | (Inr (tok, fromAccount), w1) \<Rightarrow>
               (case resolveDestination customerID req tok w1 of
                  (Inl r, w2) \<Rightarrow> (r, w2)
                | (Inr External, w2) \<Rightarrow> externalTransfer customerID req tok fromAccount w2
                | (Inr (Internal toAccount), w2) \<Rightarrow>
                    internalTransfer customerID req fromAccount toAccount w2))))"

text \<open>
  The stores that the program can reach file every account under its own ID: the maps
  are written by \<open>AddAccount\<close> and \<open>UpdateAccount\<close> only.
\<close>

definition store_ok :: "Store \<Rightarrow> bool" where
  "store_ok s = (\<forall>k a. accounts s k = Some a \<longrightarrow> a_ID a = k)"

subsection \<open>Sequences of requests\<close>

text \<open>
  The two routes that write to the store, \<^verbatim>\<open>POST /api/customers\<close> and
  \<^verbatim>\<open>POST /api/customers/:customerId/transfers\<close>, served one after the other. (The three
  \<^verbatim>\<open>GET\<close> routes call no function that writes to the store.)
\<close>

datatype request =
    PostCustomer "CustomerRequest option"
  | PostTransfer string "TransferRequest option"

fun serve :: "request \<Rightarrow> World \<Rightarrow> response \<times> World" where
  "serve (PostCustomer body) w = createCustomer body w"
| "serve (PostTransfer customerID body) w = transferMoney customerID body w"

fun serve_all :: "request list \<Rightarrow> World \<Rightarrow> World" where
  "serve_all [] w = w"
| "serve_all (r # rs) w = serve_all rs (snd (serve r w))"

text \<open>
  \<open>keeps w w'\<close>: from \<open>w\<close> to \<open>w'\<close> the environment has only advanced, no transaction ID
  has left the store, and a transaction is unchanged unless its ID is one of the UUIDs
  drawn in between or \<open>bankz-tx-\<close> followed by one of the clock readings in between.
\<close>

definition keeps :: "World \<Rightarrow> World \<Rightarrow> bool" where
  "keeps w w' \<longleftrightarrow>
     clock w' = clock w \<and> uuid_source w' = uuid_source w
   \<and> ticks w \<le> ticks w' \<and> uuid_count w \<le> uuid_count w'
   \<and> (\<forall>k. transactions (GlobalStore w) k \<noteq> None \<longrightarrow> transactions (GlobalStore w') k \<noteq> None)
   \<and> (\<forall>k. (\<forall>i. uuid_count w \<le> i \<and> i < uuid_count w' \<longrightarrow> uuid_source w i \<noteq> k)
          \<and> (\<forall>i. ticks w \<le> i \<and> i < ticks w' \<longrightarrow> ''bankz-tx-'' @ fmt_d (clock w i) \<noteq> k) \<longrightarrow>
          transactions (GlobalStore w') k = transactions (GlobalStore w) k)"

subsection \<open>Example states\<close>

text \<open>The state at start-up, with a clock that advances by a microsecond per reading.\<close>

definition world0 :: World where
  "world0 =
     \<lparr>GlobalStore = \<lparr>customers = Map.empty, accounts = Map.empty, transactions = Map.empty\<rparr>,
      bankzClient = NewMockClient,
      clock = (\<lambda>n. 1700000000000000000 + 1000 * int n),
      ticks = 0,
      uuid_source = (\<lambda>n. ''uuid-'' @ digits n),
      uuid_count = 0\<rparr>"

definition jane :: CustomerRequest where
  "jane = \<lparr>Name = ''Jane Doe'', Email = ''jane@example.com''\<rparr>"

text \<open>
  A bank with two customers: the first has a current account with 1000 and a savings
  account with 500, the second a savings account with 500. No token has been minted.
\<close>

definition bank :: World where
  "bank =
     \<lparr>GlobalStore =
        \<lparr>customers =
           [''c1'' \<mapsto> \<lparr>c_ID = ''c1'', c_Name = ''Jane Doe'', c_Email = ''jane@example.com''\<rparr>,
            ''c2'' \<mapsto> \<lparr>c_ID = ''c2'', c_Name = ''John Roe'', c_Email = ''john@example.com''\<rparr>],
         accounts =
           [''cur1'' \<mapsto> \<lparr>a_ID = ''cur1'', a_CustomerID = ''c1'', a_Type = ''current'',
               a_Balance = Finite 1000, a_CreatedAt = 1690000000000000000\<rparr>,
            ''sav1'' \<mapsto> \<lparr>a_ID = ''sav1'', a_CustomerID = ''c1'', a_Type = ''savings'',
               a_Balance = Finite 500, a_CreatedAt = 1690000000000000000\<rparr>,
            ''sav2'' \<mapsto> \<lparr>a_ID = ''sav2'', a_CustomerID = ''c2'', a_Type = ''savings'',
               a_Balance = Finite 500, a_CreatedAt = 1690000000000000001\<rparr>],
         transactions =
           [''tx1'' \<mapsto> \<lparr>t_ID = ''tx1'', t_AccountID = ''sav1'', t_CustomerID = ''c1'',
               t_Type = ''bonus'', t_Amount = Finite 500, t_FromAccountID = [],
               t_ToAccountID = [], t_CreatedAt = 1690000000000000000\<rparr>,
            ''tx2'' \<mapsto> \<lparr>t_ID = ''tx2'', t_AccountID = ''sav2'', t_CustomerID = ''c2'',
               t_Type = ''bonus'', t_Amount = Finite 500, t_FromAccountID = [],
               t_ToAccountID = [], t_CreatedAt = 1690000000000000001\<rparr>]\<rparr>,
      bankzClient = NewMockClient,
      clock = (\<lambda>n. 1700000000000000000 + 1000 * int n),
      ticks = 0,
      uuid_source = (\<lambda>n. ''uuid-'' @ digits n),
      uuid_count = 0\<rparr>"

text \<open>The same bank after the first call of \<open>GetToken\<close>.\<close>

definition bank1 :: World where
  "bank1 =
     bank\<lparr>ticks := 2,
          bankzClient := NewMockClient\<lparr>token := Some
            \<lparr>AccessToken = ''token-1700000000000000000'',
             ExpiresAt = 1700003600000001000\<rparr>\<rparr>\<rparr>"

definition cur1 :: Account where
  "cur1 = \<lparr>a_ID = ''cur1'', a_CustomerID = ''c1'', a_Type = ''current'',
            a_Balance = Finite 1000, a_CreatedAt = 1690000000000000000\<rparr>"

definition sav1 :: Account where
  "sav1 = \<lparr>a_ID = ''sav1'', a_CustomerID = ''c1'', a_Type = ''savings'',
            a_Balance = Finite 500, a_CreatedAt = 1690000000000000000\<rparr>"

text \<open>The bank with a cached token that expires 1.5 microseconds after the next clock reading.\<close>

definition bank_expiring :: World where
  "bank_expiring =
     bank\<lparr>bankzClient := NewMockClient\<lparr>token := Some
            \<lparr>AccessToken = ''token-1'', ExpiresAt = 1700000000000001500\<rparr>\<rparr>\<rparr>"

text \<open>
  The bank, with a token cached, and a clock of coarse resolution: sixteen readings in a
  row are equal. Two transfers to the partner bank follow one another.
\<close>

definition bank_coarse :: World where
  "bank_coarse = bank1\<lparr>clock := (\<lambda>n. 1700000000000000000 + 15625000 * int (n div 16))\<rparr>"

definition first_transfer :: "response \<times> World" where
  "first_transfer = transferMoney ''c1''
     (Some \<lparr>FromAccountID = ''cur1'', ToAccountID = ''bankz-acc-123'', Amount = Finite 100\<rparr>)
     bank_coarse"

definition second_transfer :: "response \<times> World" where
  "second_transfer = transferMoney ''c1''
     (Some \<lparr>FromAccountID = ''sav1'', ToAccountID = ''bankz-acc-456'', Amount = Finite 50\<rparr>)
     (snd first_transfer)"


section \<open>Evaluation and frame lemmas\<close>

lemmas status_defs = StatusCreated_def StatusBadRequest_def StatusNotFound_def
  StatusInternalServerError_def

lemmas store_defs = AddCustomer_def AddAccount_def UpdateAccount_def AddTransaction_def
  GetCustomerByID_def GetAccountByID_def

lemmas regex_defs = nameRegex_def emailRegex_def Plus_def letter_def digit_def space_def
  in_range_def

lemma digits_numeral:
  "digits (numeral k) =
     (if (numeral k :: nat) < 10 then [''0123456789'' ! numeral k]
      else digits (numeral k div 10) @ [''0123456789'' ! (numeral k mod 10)])"
  "digits 0 = ''0''" "digits (Suc 0) = ''1''" "digits (Suc (Suc 0)) = ''2''"
  by (simp_all add: digits.simps [of "numeral k"] digits.simps [of 0] digits.simps [of "Suc 0"]
      digits.simps [of "Suc (Suc 0)"])

lemma floorlog_numeral:
  "floorlog 2 (numeral n) = floorlog 2 (numeral n div 2) + 1"
  "floorlog 2 0 = 0" "floorlog 2 1 = 1" "floorlog 2 (Suc 0) = 1"
  by (simp_all add: compute_floorlog [of 2 "numeral n"] compute_floorlog [of 2 1]
      compute_floorlog [of 2 0] compute_floorlog [of 2 "Suc 0"])

lemma floor_rat_numeral:
  "\<lfloor>(numeral a / numeral b :: rat)\<rfloor> = numeral a div numeral b"
  using floor_divide_of_int_eq [of "numeral a" "numeral b", where ?'a = rat] by simp

text \<open>Rounding a given number, one step at a time.\<close>

lemma round64_eval:
  assumes "x \<noteq> 0" and "ilog2 \<bar>x\<bar> = e" and "pow2 (max e (- 1022) - 52) = q"
    and "round_half_even (\<bar>x\<bar> / q) = m" and "of_int m * q < pow2 1024"
  shows "round64 x = Finite (if 0 < x then of_int m * q else - (of_int m * q))"
proof -
  have "round64 x =
    (let y = of_int (round_half_even (\<bar>x\<bar> / pow2 (max (ilog2 \<bar>x\<bar>) (- 1022) - 52)))
               * pow2 (max (ilog2 \<bar>x\<bar>) (- 1022) - 52)
     in if pow2 1024 \<le> y then (if 0 < x then PInf else NInf)
        else Finite (if 0 < x then y else - y))"
    using assms(1) unfolding round64_def Let_def by (rule if_not_P)
  then show ?thesis
    using assms(2-) by (simp add: Let_def)
qed

lemmas round_evals = ilog2_def pow2_def round_half_even_def floorlog_numeral floor_rat_numeral

lemma f64_0: "f64 0 = Finite 0"
  by (simp add: f64_def round64_def)

lemma f64_500: "f64 500 = Finite 500"
  unfolding f64_def
  by (subst round64_eval [where e = 8 and q = "1 / 2 ^ 44" and m = "500 * 2 ^ 44"])
     (simp_all add: round_evals)

lemma mintToken_frame:
  assumes "mintToken w = (r, w')"
  shows "GlobalStore w' = GlobalStore w \<and> clock w' = clock w \<and> uuid_source w' = uuid_source w
    \<and> uuid_count w' = uuid_count w \<and> ticks w \<le> ticks w'
    \<and> bz_accounts (bankzClient w') = bz_accounts (bankzClient w)
    \<and> clientID (bankzClient w') = clientID (bankzClient w)
    \<and> clientSecret (bankzClient w') = clientSecret (bankzClient w)"
  using assms
  by (auto simp: mintToken_def Let_def split_def time_Now_def split: if_splits)

lemma GetToken_frame:
  assumes "GetToken w = (r, w')"
  shows "GlobalStore w' = GlobalStore w \<and> clock w' = clock w \<and> uuid_source w' = uuid_source w
    \<and> uuid_count w' = uuid_count w \<and> ticks w \<le> ticks w'
    \<and> bz_accounts (bankzClient w') = bz_accounts (bankzClient w)
    \<and> clientID (bankzClient w') = clientID (bankzClient w)
    \<and> clientSecret (bankzClient w') = clientSecret (bankzClient w)"
proof (cases "token (bankzClient w)")
  case None
  with assms show ?thesis
    using mintToken_frame [of w r w'] by (simp add: GetToken_def)
next
  case (Some tk)
  show ?thesis
  proof (cases "After (ExpiresAt tk) (clock w (ticks w))")
    case True
    with Some assms show ?thesis
      by (auto simp: GetToken_def Let_def split_def time_Now_def)
  next
    case False
    with Some assms have "mintToken (w\<lparr>ticks := Suc (ticks w)\<rparr>) = (r, w')"
      by (simp add: GetToken_def Let_def split_def time_Now_def)
    from mintToken_frame [OF this] show ?thesis by simp
  qed
qed

lemma validateToken_frame:
  assumes "validateToken tok w = (r, w')"
  shows "GlobalStore w' = GlobalStore w \<and> clock w' = clock w \<and> uuid_source w' = uuid_source w
    \<and> uuid_count w' = uuid_count w \<and> ticks w \<le> ticks w' \<and> bankzClient w' = bankzClient w"
  using assms
  by (auto simp: validateToken_def Let_def split_def time_Now_def
      split: option.splits if_splits)

lemma GetBalance_frame:
  assumes "GetBalance accountID tok w = (r, w')"
  shows "GlobalStore w' = GlobalStore w \<and> clock w' = clock w \<and> uuid_source w' = uuid_source w
    \<and> uuid_count w' = uuid_count w \<and> ticks w \<le> ticks w' \<and> bankzClient w' = bankzClient w"
proof -
  obtain v w1 where v: "validateToken tok w = (v, w1)"
    by (cases "validateToken tok w")
  from assms v have "w' = w1"
    by (auto simp: GetBalance_def split: option.splits)
  with validateToken_frame [OF v] show ?thesis by simp
qed

lemma InitiateTransfer_frame:
  assumes "InitiateTransfer fromID toID tok amount w = (r, w')"
  shows "GlobalStore w' = GlobalStore w \<and> clock w' = clock w \<and> uuid_source w' = uuid_source w
    \<and> uuid_count w' = uuid_count w \<and> ticks w \<le> ticks w'
    \<and> token (bankzClient w') = token (bankzClient w)"
proof -
  obtain v w1 where v: "validateToken tok w = (v, w1)"
    by (cases "validateToken tok w")
  from validateToken_frame [OF v] assms v show ?thesis
    by (auto simp: InitiateTransfer_def Let_def split_def time_Now_def
        split: option.splits if_splits)
qed


lemma mintToken_ok:
  assumes "clientID (bankzClient w) = ''mock-client-id''"
    and "clientSecret (bankzClient w) = ''mock-client-secret''"
  shows "mintToken w =
    (Inr (''token-'' @ fmt_d (clock w (ticks w))),
     w\<lparr>ticks := ticks w + 2,
       bankzClient := (bankzClient w)\<lparr>token := Some
         \<lparr>AccessToken = ''token-'' @ fmt_d (clock w (ticks w)),
          ExpiresAt = clock w (Suc (ticks w)) + Hour\<rparr>\<rparr>\<rparr>)"
  using assms
  by (cases w) (simp add: mintToken_def Let_def split_def time_Now_def Add_def)

lemma GetToken_caches:
  assumes "GetToken w = (Inr tok, w1)"
  shows "\<exists>tk. token (bankzClient w1) = Some tk \<and> AccessToken tk = tok"
  using assms
  by (auto simp: GetToken_def mintToken_def Let_def split_def time_Now_def
      split: option.splits if_splits)

lemma checkSource_frame:
  assumes "checkSource customerID req w = (r, w')"
  shows "GlobalStore w' = GlobalStore w \<and> clock w' = clock w \<and> uuid_source w' = uuid_source w
    \<and> uuid_count w' = uuid_count w \<and> ticks w \<le> ticks w'"
proof (cases "customers (GlobalStore w) customerID")
  case None
  with assms show ?thesis by (simp add: checkSource_def store_defs)
next
  case (Some c)
  obtain g w1 where g: "GetToken w = (g, w1)" by (cases "GetToken w")
  from assms Some g have "w' = w1"
    by (auto simp: checkSource_def store_defs split: sum.splits option.splits if_splits)
  with GetToken_frame [OF g] show ?thesis by simp
qed

lemma GetToken_bank: "GetToken bank = (Inr ''token-1700000000000000000'', bank1)"
  by (simp add: GetToken_def mintToken_def NewMockClient_def bank_def bank1_def Let_def
      split_def time_Now_def fmt_d_def digits_numeral Add_def Hour_def)

lemma bank_store:
  "customers (GlobalStore bank) ''c1'' \<noteq> None"
  "customers (GlobalStore bank) ''c3'' = None"
  "accounts (GlobalStore bank) ''cur1'' = Some cur1"
  "accounts (GlobalStore bank) ''sav1'' = Some sav1"
  "accounts (GlobalStore bank) ''sav3'' = None"
  "accounts (GlobalStore bank) ''bankz-acc-123'' = None"
  "accounts (GlobalStore bank) ''sav2'' = Some \<lparr>a_ID = ''sav2'', a_CustomerID = ''c2'',
     a_Type = ''savings'', a_Balance = Finite 500, a_CreatedAt = 1690000000000000001\<rparr>"
  "GlobalStore bank1 = GlobalStore bank"
  by (simp_all add: bank_def bank1_def cur1_def sav1_def)

lemma store_ok_bank: "store_ok (GlobalStore bank)"
  by (auto simp: store_ok_def bank_def split: if_splits)

lemma checkSource_bank:
  "FromAccountID req = ''cur1'' \<Longrightarrow>
   checkSource ''c1'' req bank = (Inr (''token-1700000000000000000'', cur1), bank1)"
  using bank_store by (auto simp: checkSource_def store_defs GetToken_bank cur1_def)

lemma resolveDestination_frame:
  assumes "resolveDestination customerID req tok w = (r, w')"
  shows "GlobalStore w' = GlobalStore w \<and> clock w' = clock w \<and> uuid_source w' = uuid_source w
    \<and> uuid_count w' = uuid_count w \<and> ticks w \<le> ticks w' \<and> bankzClient w' = bankzClient w"
proof (cases "accounts (GlobalStore w) (ToAccountID req)")
  case None
  obtain b w1 where b: "GetBalance (ToAccountID req) tok w = (b, w1)"
    by (cases "GetBalance (ToAccountID req) tok w")
  from assms None b have "w' = w1"
    by (auto simp: resolveDestination_def store_defs split: sum.splits)
  with GetBalance_frame [OF b] show ?thesis by simp
next
  case (Some a)
  with assms show ?thesis
    by (auto simp: resolveDestination_def store_defs split: if_splits)
qed

lemma f64_1000: "f64 1000 = Finite 1000"
  unfolding f64_def
  by (subst round64_eval [where e = 9 and q = "1 / 2 ^ 43" and m = "1000 * 2 ^ 43"])
     (simp_all add: round_evals)

lemma validateToken_bank1:
  "validateToken ''token-1700000000000000000'' bank1 = (None, bank1\<lparr>ticks := 3\<rparr>)"
  by (simp add: validateToken_def bank1_def bank_def Let_def split_def time_Now_def Before_def)

lemma GetBalance_bank1:
  "GetBalance ''bankz-acc-123'' ''token-1700000000000000000'' bank1 =
     (Inr (Finite 1000), bank1\<lparr>ticks := 3\<rparr>)"
  "GetBalance ''sav3'' ''token-1700000000000000000'' bank1 =
     (Inl ''Bank Z account sav3 not found'', bank1\<lparr>ticks := 3\<rparr>)"
  by (simp_all add: GetBalance_def validateToken_bank1)
     (simp_all add: bank1_def bank_def NewMockClient_def f64_1000)

lemma checkSource_Inr:
  assumes "checkSource customerID req w = (Inr (tok, fromAccount), w1)"
  shows "customers (GlobalStore w) customerID \<noteq> None \<and> GetToken w = (Inr tok, w1)
    \<and> accounts (GlobalStore w) (FromAccountID req) = Some fromAccount
    \<and> a_CustomerID fromAccount = customerID"
proof -
  obtain g w' where g: "GetToken w = (g, w')" by (cases "GetToken w")
  have s: "GlobalStore w' = GlobalStore w"
    using GetToken_frame [OF g] by simp
  from assms g s show ?thesis
    by (auto simp: checkSource_def store_defs split: option.splits sum.splits if_splits)
qed

lemma bank_expiring_store: "GlobalStore bank_expiring = GlobalStore bank"
  by (simp add: bank_expiring_def)

lemma fle_not_flt: "fle y x \<Longrightarrow> \<not> flt x y"
  by (cases x; cases y) simp_all

lemma internalTransfer_rejected:
  assumes "flt (a_Balance fromAccount)
     (fadd (Amount req) (if a_Type fromAccount = ''current''
        then fmul (Amount req) const_0_0005 else Finite 0))"
  shows "internalTransfer customerID req fromAccount toAccount w =
     ((StatusBadRequest, H_error ''Insufficient funds''), w)"
  using assms
  by (cases "a_Type fromAccount = ''current''") (simp_all add: internalTransfer_def Let_def f64_0)

lemma internalTransfer_accepted:
  assumes "\<not> flt (a_Balance fromAccount)
     (fadd (Amount req) (if a_Type fromAccount = ''current''
        then fmul (Amount req) const_0_0005 else Finite 0))"
    and "internalTransfer customerID req fromAccount toAccount w = (r, w')"
  shows "r = (StatusCreated, TransferDone (uuid_source w (uuid_count w)) ''success'')
    \<and> customers (GlobalStore w') = customers (GlobalStore w)
    \<and> accounts (GlobalStore w') = (accounts (GlobalStore w))
        (a_ID fromAccount \<mapsto> fromAccount\<lparr>a_Balance := fsub (a_Balance fromAccount)
           (fadd (Amount req) (if a_Type fromAccount = ''current''
              then fmul (Amount req) const_0_0005 else Finite 0))\<rparr>,
         a_ID toAccount \<mapsto> toAccount\<lparr>a_Balance := fadd (a_Balance toAccount)
           (fadd (Amount req) (if a_Type toAccount = ''savings''
              then fmul (Amount req) const_0_005 else Finite 0))\<rparr>)"
  using assms
  by (cases "a_Type fromAccount = ''current''"; cases "a_Type toAccount = ''savings''")
     (auto simp: internalTransfer_def Let_def split_def f64_0 store_defs time_Now_def
      uuid_New_def)


text \<open>Values of the arithmetic of the example transfers.\<close>

lemma const_0_0005_eq: "const_0_0005 = Finite (1152921504606847 / 2305843009213693952)"
  unfolding const_0_0005_def f64_def
  by (subst round64_eval [where e = "-11" and q = "1 / 2 ^ 63" and m = "4611686018427388"])
     (simp_all add: round_evals)

lemma const_0_005_eq: "const_0_005 = Finite (5764607523034235 / 1152921504606846976)"
  unfolding const_0_005_def f64_def
  by (subst round64_eval [where e = "-8" and q = "1 / 2 ^ 60" and m = "5764607523034235"])
     (simp_all add: round_evals)

lemma round64_v1: "round64 (28823037615171175 / 576460752303423488) = Finite (3602879701896397 / 72057594037927936)"
  by (subst round64_eval [where e = "-5" and q = "1 / 2 ^ 57" and m = "7205759403792794"])
     (simp_all add: round_evals)

lemma round64_v2: "round64 (7209362283494689997 / 72057594037927936) = Finite (7040392854975283 / 70368744177664)"
  by (subst round64_eval [where e = "6" and q = "1 / 2 ^ 46" and m = "7040392854975283"])
     (simp_all add: round_evals)

lemma round64_v3: "round64 (63328351322688717 / 70368744177664) = Finite (3958021957668045 / 4398046511104)"
  by (subst round64_eval [where e = "9" and q = "1 / 2 ^ 43" and m = "7916043915336090"])
     (simp_all add: round_evals)

lemma round64_v4: "round64 (144115188075855875 / 288230376151711744) = Finite (1 / 2)"
  by (subst round64_eval [where e = "-1" and q = "1 / 2 ^ 53" and m = "4503599627370496"])
     (simp_all add: round_evals)

lemma round64_v5: "round64 (201 / 2) = Finite (201 / 2)"
  by (subst round64_eval [where e = "6" and q = "1 / 2 ^ 46" and m = "7072058789855232"])
     (simp_all add: round_evals)

lemma round64_v6: "round64 (1201 / 2) = Finite (1201 / 2)"
  by (subst round64_eval [where e = "9" and q = "1 / 2 ^ 43" and m = "5282053859835904"])
     (simp_all add: round_evals)

lemma round64_v7: "round64 (28823037615171175 / 288230376151711744) = Finite (3602879701896397 / 36028797018963968)"
  by (subst round64_eval [where e = "-4" and q = "1 / 2 ^ 56" and m = "7205759403792794"])
     (simp_all add: round_evals)

lemma round64_v8: "round64 (7209362283494689997 / 36028797018963968) = Finite (7040392854975283 / 35184372088832)"
  by (subst round64_eval [where e = "7" and q = "1 / 2 ^ 45" and m = "7040392854975283"])
     (simp_all add: round_evals)

lemma round64_v9: "round64 (28143979233856717 / 35184372088832) = Finite (7035994808464179 / 8796093022208)"
  by (subst round64_eval [where e = "9" and q = "1 / 2 ^ 43" and m = "7035994808464179"])
     (simp_all add: round_evals)

lemma round64_v10: "round64 (144115188075855875 / 144115188075855872) = Finite (1)"
  by (subst round64_eval [where e = "0" and q = "1 / 2 ^ 52" and m = "4503599627370496"])
     (simp_all add: round_evals)

lemma round64_v11: "round64 (201) = Finite (201)"
  by (subst round64_eval [where e = "7" and q = "1 / 2 ^ 45" and m = "7072058789855232"])
     (simp_all add: round_evals)

lemma round64_v12: "round64 (701) = Finite (701)"
  by (subst round64_eval [where e = "9" and q = "1 / 2 ^ 43" and m = "6166061208567808"])
     (simp_all add: round_evals)

lemma round64_v13: "round64 (600) = Finite (600)"
  by (subst round64_eval [where e = "9" and q = "1 / 2 ^ 43" and m = "5277655813324800"])
     (simp_all add: round_evals)

lemma round64_v14: "round64 (100) = Finite (100)"
  by (subst round64_eval [where e = "6" and q = "1 / 2 ^ 46" and m = "7036874417766400"])
     (simp_all add: round_evals)

lemma round64_v15: "round64 (900) = Finite (900)"
  by (subst round64_eval [where e = "9" and q = "1 / 2 ^ 43" and m = "7916483719987200"])
     (simp_all add: round_evals)

lemmas round64_values = round64_v1 round64_v2 round64_v3 round64_v4 round64_v5 round64_v6 round64_v7 round64_v8 round64_v9 round64_v10 round64_v11 round64_v12 round64_v13 round64_v14 round64_v15

lemma checkSource_bank_sav1:
  "FromAccountID req = ''sav1'' \<Longrightarrow>
   checkSource ''c1'' req bank = (Inr (''token-1700000000000000000'', sav1), bank1)"
  using bank_store by (auto simp: checkSource_def store_defs GetToken_bank sav1_def)

lemma round64_1_10: "round64 (1 / 10) = Finite (3602879701896397 / 36028797018963968)"
  by (subst round64_eval [where e = "-4" and q = "1 / 2 ^ 56" and m = "7205759403792794"])
     (simp_all add: round_evals)

lemma round64_7999_10: "round64 (7999 / 10) = Finite (7035994808464179 / 8796093022208)"
  by (subst round64_eval [where e = "9" and q = "1 / 2 ^ 43" and m = "7035994808464179"])
     (simp_all add: round_evals)

lemma round64_200: "round64 200 = Finite 200"
  by (subst round64_eval [where e = "7" and q = "1 / 2 ^ 45" and m = "7036874417766400"])
     (simp_all add: round_evals)

lemma round64_1: "round64 1 = Finite 1"
  by (subst round64_eval [where e = "0" and q = "1 / 2 ^ 52" and m = "4503599627370496"])
     (simp_all add: round_evals)

lemma round64_1000: "round64 1000 = Finite 1000"
  by (subst round64_eval [where e = "9" and q = "1 / 2 ^ 43" and m = "8796093022208000"])
     (simp_all add: round_evals)

text \<open>The transactions that an accepted internal transfer records.\<close>

lemma internalTransfer_transactions:
  assumes "\<not> flt (a_Balance fromAccount) (fadd (Amount req) fee)"
    and "internalTransfer customerID req fromAccount toAccount w = (r, w')"
    and "fee = (if a_Type fromAccount = ''current''
                then fmul (Amount req) const_0_0005 else Finite 0)"
    and "interest = (if a_Type toAccount = ''savings''
                then fmul (Amount req) const_0_005 else Finite 0)"
    and "t1 = (transactions (GlobalStore w))(uuid_source w (uuid_count w) \<mapsto>
           \<lparr>t_ID = uuid_source w (uuid_count w), t_AccountID = a_ID fromAccount,
            t_CustomerID = customerID, t_Type = ''transfer'', t_Amount = Amount req,
            t_FromAccountID = a_ID fromAccount, t_ToAccountID = a_ID toAccount,
            t_CreatedAt = clock w (ticks w)\<rparr>)"
    and "t2 = (if fgt fee (Finite 0)
           then t1(uuid_source w (uuid_count w + 1) \<mapsto>
             \<lparr>t_ID = uuid_source w (uuid_count w + 1), t_AccountID = a_ID fromAccount,
              t_CustomerID = customerID, t_Type = ''fee'', t_Amount = fee,
              t_FromAccountID = [], t_ToAccountID = [], t_CreatedAt = clock w (ticks w)\<rparr>)
           else t1)"
    and "k = (if fgt fee (Finite 0) then uuid_count w + 2 else uuid_count w + 1)"
  shows "transactions (GlobalStore w') =
      (if fgt interest (Finite 0)
       then t2(uuid_source w k \<mapsto>
         \<lparr>t_ID = uuid_source w k, t_AccountID = a_ID toAccount,
          t_CustomerID = customerID, t_Type = ''interest'', t_Amount = interest,
          t_FromAccountID = [], t_ToAccountID = [], t_CreatedAt = clock w (ticks w)\<rparr>)
       else t2)
    \<and> uuid_count w' = (if fgt interest (Finite 0) then k + 1 else k)
    \<and> uuid_source w' = uuid_source w \<and> clock w' = clock w \<and> ticks w' = Suc (ticks w)
    \<and> bankzClient w' = bankzClient w"
  using assms(1,2) unfolding assms(3-)
  by (cases "a_Type fromAccount = ''current''"; cases "a_Type toAccount = ''savings''")
     (auto simp: internalTransfer_def Let_def split_def f64_0 store_defs time_Now_def
      uuid_New_def)


lemma f64_values:
  "f64 200 = Finite 200" "f64 1000 = Finite 1000" "f64 1 = Finite 1" "f64 201 = Finite 201"
  "f64 (1 / 10) = Finite (3602879701896397 / 36028797018963968)"
  "f64 (7999 / 10) = Finite (7035994808464179 / 8796093022208)"
  by (simp_all add: f64_def round64_200 round64_1000 round64_1 round64_1_10 round64_7999_10
      round64_values)

lemma pow2_pos: "0 < pow2 k"
  by (simp add: pow2_def)

lemma round_half_even_nonneg: "0 \<le> n \<Longrightarrow> 0 \<le> round_half_even n"
  by (auto simp: round_half_even_def Let_def)

lemma round64_cases:
  obtains y where "round64 x = Finite y" | "round64 x = PInf" | "round64 x = NInf"
  by (cases "round64 x") (auto simp: round64_def Let_def split: if_splits)

lemma round64_nonneg:
  assumes "0 \<le> x"
  shows "fle (Finite 0) (round64 x)"
proof (cases "x = 0")
  case True
  then show ?thesis by (simp add: round64_def)
next
  case False
  with assms have pos: "0 < x" by simp
  define q where "q = pow2 (max (ilog2 \<bar>x\<bar>) (- 1022) - 52)"
  define m where "m = round_half_even (\<bar>x\<bar> / q)"
  have q: "0 < q" by (simp add: q_def pow2_pos)
  have "0 \<le> \<bar>x\<bar> / q" using q by simp
  then have m: "0 \<le> m" unfolding m_def by (rule round_half_even_nonneg)
  have y: "0 \<le> of_int m * q" using m q by simp
  have "round64 x = (if pow2 1024 \<le> of_int m * q then PInf else Finite (of_int m * q))"
    using pos False by (simp add: round64_def Let_def q_def m_def)
  with y show ?thesis by simp
qed

lemma fsub_not_below_zero:
  assumes "\<not> flt a b"
  shows "\<not> flt (fsub a b) (Finite 0)"
proof (cases a)
  case (Finite x)
  show ?thesis
  proof (cases b)
    case (Finite y)
    with \<open>a = Finite x\<close> assms have "0 \<le> x - y" by simp
    from round64_nonneg [OF this] show ?thesis
      using \<open>a = Finite x\<close> Finite by (cases "round64 (x - y)") (simp_all add: fsub_def)
  qed (use Finite assms in \<open>simp_all add: fsub_def\<close>)
qed (use assms in \<open>cases b; simp add: fsub_def\<close>)+

lemma fsub_nonneg:
  assumes "\<not> flt a b" and "a = Finite x" and "b \<noteq> NaN"
  shows "fle (Finite 0) (fsub a b)"
proof (cases b)
  case (Finite y)
  with assms have "0 \<le> x - y" by simp
  from round64_nonneg [OF this] show ?thesis
    using assms(2) Finite by (simp add: fsub_def)
qed (use assms in \<open>simp_all add: fsub_def\<close>)


lemma round64_not_NaN [simp]: "round64 x \<noteq> NaN"
  by (rule round64_cases [of x]) simp_all

lemma fadd_Finite_not_NaN: "b \<noteq> NaN \<Longrightarrow> fadd (Finite x) b \<noteq> NaN"
  by (cases b) simp_all

lemma total_not_NaN:
  assumes "amount \<noteq> NaN"
  shows "fadd amount (if c then fmul amount const_0_0005 else Finite 0) \<noteq> NaN"
proof (cases amount)
  case (Finite x)
  then show ?thesis
    by (simp add: const_0_0005_eq fadd_Finite_not_NaN)
qed (use assms in \<open>simp_all add: const_0_0005_eq\<close>)

text \<open>What an accepted request has gone through.\<close>

lemma transferMoney_Created:
  assumes "transferMoney customerID body w = ((StatusCreated, j), w')"
  obtains req tok fromAccount w1 w2 toAccount where
      "body = Some req" "transferErrors req = []"
      "checkSource customerID req w = (Inr (tok, fromAccount), w1)"
      "resolveDestination customerID req tok w1 = (Inr (Internal toAccount), w2)"
      "internalTransfer customerID req fromAccount toAccount w2 = ((StatusCreated, j), w')"
  | req tok fromAccount w1 w2 where
      "body = Some req" "transferErrors req = []"
      "checkSource customerID req w = (Inr (tok, fromAccount), w1)"
      "resolveDestination customerID req tok w1 = (Inr External, w2)"
      "externalTransfer customerID req tok fromAccount w2 = ((StatusCreated, j), w')"
proof (cases body)
  case None
  with assms show ?thesis by (simp add: transferMoney_def status_defs)
next
  case (Some req)
  have e: "transferErrors req = []"
    using assms Some by (auto simp: transferMoney_def Let_def status_defs split: if_splits)
  obtain c w1 where c: "checkSource customerID req w = (c, w1)"
    by (cases "checkSource customerID req w")
  show ?thesis
  proof (cases c)
    case (Inl resp)
    with assms Some e c show ?thesis
      by (auto simp: transferMoney_def checkSource_def status_defs
          split: option.splits sum.splits prod.splits if_splits)
  next
    case (Inr p)
    obtain tok fromAccount where p: "p = (tok, fromAccount)" by (cases p)
    obtain d w2 where d: "resolveDestination customerID req tok w1 = (d, w2)"
      by (cases "resolveDestination customerID req tok w1")
    show ?thesis
    proof (cases d)
      case (Inl resp)
      with assms Some e c Inr p d show ?thesis
        by (auto simp: transferMoney_def resolveDestination_def status_defs
            split: option.splits sum.splits prod.splits if_splits)
    next
      case dest: (Inr dst)
      show ?thesis
      proof (cases dst)
        case (Internal toAccount)
        with assms Some e c Inr p d dest that(1) show ?thesis
          by (simp add: transferMoney_def)
      next
        case External
        with assms Some e c Inr p d dest that(2) show ?thesis
          by (simp add: transferMoney_def)
      qed
    qed
  qed
qed

lemma resolveDestination_Internal:
  assumes "resolveDestination customerID req tok w = (Inr (Internal toAccount), w')"
  shows "accounts (GlobalStore w) (ToAccountID req) = Some toAccount
    \<and> a_CustomerID toAccount = customerID \<and> w' = w"
  using assms
  by (auto simp: resolveDestination_def store_defs
      split: option.splits sum.splits prod.splits if_splits)


lemma internalTransfer_Created:
  assumes "internalTransfer customerID req fromAccount toAccount w = ((StatusCreated, j), w')"
  shows "\<not> flt (a_Balance fromAccount)
     (fadd (Amount req) (if a_Type fromAccount = ''current''
        then fmul (Amount req) const_0_0005 else Finite 0))"
  using assms internalTransfer_rejected [of fromAccount req customerID toAccount w]
  by (auto simp: status_defs)

lemma externalTransfer_Created:
  assumes "externalTransfer customerID req tok fromAccount w = ((StatusCreated, j), w')"
  shows "\<not> flt (a_Balance fromAccount) (Amount req)
    \<and> (\<exists>transactionID w1.
         InitiateTransfer (a_ID fromAccount) (ToAccountID req) tok (Amount req) w =
           (Inr transactionID, w1)
         \<and> j = TransferDone transactionID ''success''
         \<and> customers (GlobalStore w') = customers (GlobalStore w)
         \<and> accounts (GlobalStore w') = (accounts (GlobalStore w))
             (a_ID fromAccount \<mapsto>
               fromAccount\<lparr>a_Balance := fsub (a_Balance fromAccount) (Amount req)\<rparr>)
         \<and> transactions (GlobalStore w') = (transactions (GlobalStore w))
             (transactionID \<mapsto>
               \<lparr>t_ID = transactionID, t_AccountID = a_ID fromAccount,
                t_CustomerID = customerID, t_Type = ''bankz_transfer'',
                t_Amount = Amount req, t_FromAccountID = a_ID fromAccount,
                t_ToAccountID = ToAccountID req, t_CreatedAt = clock w1 (ticks w1)\<rparr>)
         \<and> clock w' = clock w1 \<and> uuid_source w' = uuid_source w1
         \<and> uuid_count w' = uuid_count w1 \<and> ticks w' = Suc (ticks w1)
         \<and> bankzClient w' = bankzClient w1)"
proof -
  obtain i w1 where i:
    "InitiateTransfer (a_ID fromAccount) (ToAccountID req) tok (Amount req) w = (i, w1)"
    by (cases "InitiateTransfer (a_ID fromAccount) (ToAccountID req) tok (Amount req) w")
  note fr = InitiateTransfer_frame [OF i]
  from assms i fr show ?thesis
    by (cases i)
       (auto simp: externalTransfer_def Let_def split_def status_defs store_defs time_Now_def
        split: if_splits)
qed


lemma internalTransfer_tx_frame:
  assumes "\<not> flt (a_Balance fromAccount)
     (fadd (Amount req) (if a_Type fromAccount = ''current''
        then fmul (Amount req) const_0_0005 else Finite 0))"
    and "internalTransfer customerID req fromAccount toAccount w = (r, w')"
  shows "uuid_count w < uuid_count w' \<and> uuid_count w' \<le> uuid_count w + 3
    \<and> uuid_source w' = uuid_source w \<and> clock w' = clock w \<and> ticks w \<le> ticks w'
    \<and> (\<forall>k. (\<forall>i. uuid_count w \<le> i \<and> i < uuid_count w' \<longrightarrow> k \<noteq> uuid_source w i) \<longrightarrow>
          transactions (GlobalStore w') k = transactions (GlobalStore w) k)
    \<and> (\<forall>k. transactions (GlobalStore w) k \<noteq> None \<longrightarrow> transactions (GlobalStore w') k \<noteq> None)
    \<and> (\<forall>k t. transactions (GlobalStore w') k = Some t \<longrightarrow>
          transactions (GlobalStore w) k \<noteq> Some t \<longrightarrow>
          t_ID t = k \<and> t_CustomerID t = customerID
          \<and> (t_Type t = ''transfer'' \<or> t_Type t = ''fee'' \<or> t_Type t = ''interest''))"
proof -
  note tx = internalTransfer_transactions [OF assms(1) assms(2) refl refl refl refl refl]
  show ?thesis
    by (cases "fgt (if a_Type fromAccount = ''current''
                then fmul (Amount req) const_0_0005 else Finite 0) (Finite 0)";
        cases "fgt (if a_Type toAccount = ''savings''
                then fmul (Amount req) const_0_005 else Finite 0) (Finite 0)")
       (insert tx, auto split: if_splits)
qed



lemma GetToken_cached:
  assumes "token (bankzClient w) = Some tk" and "After (ExpiresAt tk) (clock w (ticks w))"
  shows "GetToken w = (Inr (AccessToken tk), w\<lparr>ticks := Suc (ticks w)\<rparr>)"
  using assms by (simp add: GetToken_def Let_def split_def time_Now_def)

lemma validateToken_ok:
  assumes "token (bankzClient w) = Some tk" and "AccessToken tk = tok"
    and "\<not> Before (ExpiresAt tk) (clock w (ticks w))"
  shows "validateToken tok w = (None, w\<lparr>ticks := Suc (ticks w)\<rparr>)"
  using assms by (simp add: validateToken_def Let_def split_def time_Now_def)

lemma GetBalance_ok:
  assumes "token (bankzClient w) = Some tk" and "AccessToken tk = tok"
    and "\<not> Before (ExpiresAt tk) (clock w (ticks w))"
    and "bz_accounts (bankzClient w) accountID = Some account"
  shows "GetBalance accountID tok w = (Inr (m_Balance account), w\<lparr>ticks := Suc (ticks w)\<rparr>)"
  using assms(4) by (simp add: GetBalance_def validateToken_ok [OF assms(1-3)])

lemma InitiateTransfer_ok:
  assumes "token (bankzClient w) = Some tk" and "AccessToken tk = tok"
    and "\<not> Before (ExpiresAt tk) (clock w (ticks w))"
    and "\<not> fle amount (Finite 0)"
    and "bz_accounts (bankzClient w) toID = Some account"
  shows "InitiateTransfer fromID toID tok amount w =
    (Inr (''bankz-tx-'' @ fmt_d (clock w (Suc (ticks w)))),
     w\<lparr>ticks := Suc (Suc (ticks w)),
       bankzClient := (bankzClient w)\<lparr>bz_accounts := (bz_accounts (bankzClient w))
         (toID \<mapsto> \<lparr>m_AccountID = toID, m_Balance = fadd (m_Balance account) amount\<rparr>)\<rparr>\<rparr>)"
  using assms(4,5)
  by (simp add: InitiateTransfer_def validateToken_ok [OF assms(1-3)] f64_0 Let_def split_def
      time_Now_def)

text \<open>An external transfer that succeeds, with a cached token that stays valid.\<close>

lemma transferMoney_external_ok:
  assumes "transferErrors req = []"
    and "customers (GlobalStore w) customerID \<noteq> None"
    and "token (bankzClient w) = Some tk"
    and "After (ExpiresAt tk) (clock w (ticks w))"
    and "\<not> Before (ExpiresAt tk) (clock w (Suc (ticks w)))"
    and "\<not> Before (ExpiresAt tk) (clock w (Suc (Suc (ticks w))))"
    and "accounts (GlobalStore w) (FromAccountID req) = Some fromAccount"
    and "a_CustomerID fromAccount = customerID"
    and "accounts (GlobalStore w) (ToAccountID req) = None"
    and "bz_accounts (bankzClient w) (ToAccountID req) = Some account"
    and "\<not> flt (a_Balance fromAccount) (Amount req)"
    and "transactionID = ''bankz-tx-'' @ fmt_d (clock w (ticks w + 3))"
  shows "transferMoney customerID (Some req) w =
    ((StatusCreated, TransferDone transactionID ''success''),
     w\<lparr>ticks := ticks w + 5,
       bankzClient := (bankzClient w)\<lparr>bz_accounts := (bz_accounts (bankzClient w))
         (ToAccountID req \<mapsto> \<lparr>m_AccountID = ToAccountID req,
            m_Balance = fadd (m_Balance account) (Amount req)\<rparr>)\<rparr>,
       GlobalStore := (GlobalStore w)
         \<lparr>accounts := (accounts (GlobalStore w))(a_ID fromAccount \<mapsto>
            fromAccount\<lparr>a_Balance := fsub (a_Balance fromAccount) (Amount req)\<rparr>),
          transactions := (transactions (GlobalStore w))(transactionID \<mapsto>
            \<lparr>t_ID = transactionID, t_AccountID = a_ID fromAccount,
             t_CustomerID = customerID, t_Type = ''bankz_transfer'',
             t_Amount = Amount req, t_FromAccountID = a_ID fromAccount,
             t_ToAccountID = ToAccountID req, t_CreatedAt = clock w (ticks w + 4)\<rparr>)\<rparr>\<rparr>)"
proof -
  let ?w1 = "w\<lparr>ticks := Suc (ticks w)\<rparr>"
  let ?w2 = "w\<lparr>ticks := Suc (Suc (ticks w))\<rparr>"
  have amt: "\<not> fle (Amount req) (Finite 0)"
    using assms(1) by (auto simp: transferErrors_def f64_0 split: if_splits)
  have g: "GetToken w = (Inr (AccessToken tk), ?w1)"
    using assms(3,4) by (rule GetToken_cached)
  have c: "checkSource customerID req w = (Inr (AccessToken tk, fromAccount), ?w1)"
    using assms(2,7,8) by (auto simp: checkSource_def store_defs g)
  have b: "GetBalance (ToAccountID req) (AccessToken tk) ?w1 = (Inr (m_Balance account), ?w2)"
    using GetBalance_ok [of ?w1 tk "AccessToken tk" "ToAccountID req" account] assms(3,5,10)
    by simp
  have r: "resolveDestination customerID req (AccessToken tk) ?w1 = (Inr External, ?w2)"
    using assms(9) by (simp add: resolveDestination_def store_defs b)
  have i: "InitiateTransfer (a_ID fromAccount) (ToAccountID req) (AccessToken tk) (Amount req) ?w2
    = (Inr transactionID,
       w\<lparr>ticks := ticks w + 4,
         bankzClient := (bankzClient w)\<lparr>bz_accounts := (bz_accounts (bankzClient w))
           (ToAccountID req \<mapsto> \<lparr>m_AccountID = ToAccountID req,
              m_Balance = fadd (m_Balance account) (Amount req)\<rparr>)\<rparr>\<rparr>)"
    using InitiateTransfer_ok [of ?w2 tk "AccessToken tk" "Amount req" "ToAccountID req" account
        "a_ID fromAccount"] assms(3,6,10) amt
    by (simp add: assms(12) eval_nat_numeral)
  have "transferMoney customerID (Some req) w =
      externalTransfer customerID req (AccessToken tk) fromAccount ?w2"
    by (simp add: transferMoney_def assms(1) c r)
  also have "\<dots> =
    ((StatusCreated, TransferDone transactionID ''success''),
     w\<lparr>ticks := ticks w + 5,
       bankzClient := (bankzClient w)\<lparr>bz_accounts := (bz_accounts (bankzClient w))
         (ToAccountID req \<mapsto> \<lparr>m_AccountID = ToAccountID req,
            m_Balance = fadd (m_Balance account) (Amount req)\<rparr>)\<rparr>,
       GlobalStore := (GlobalStore w)
         \<lparr>accounts := (accounts (GlobalStore w))(a_ID fromAccount \<mapsto>
            fromAccount\<lparr>a_Balance := fsub (a_Balance fromAccount) (Amount req)\<rparr>),
          transactions := (transactions (GlobalStore w))(transactionID \<mapsto>
            \<lparr>t_ID = transactionID, t_AccountID = a_ID fromAccount,
             t_CustomerID = customerID, t_Type = ''bankz_transfer'',
             t_Amount = Amount req, t_FromAccountID = a_ID fromAccount,
             t_ToAccountID = ToAccountID req, t_CreatedAt = clock w (ticks w + 4)\<rparr>)\<rparr>\<rparr>)"
    using assms(11)
    by (simp add: externalTransfer_def i Let_def split_def time_Now_def store_defs)
  finally show ?thesis .
qed


lemma bank_coarse_facts:
  "GlobalStore bank_coarse = GlobalStore bank"
  "ticks bank_coarse = 2"
  "clock bank_coarse = (\<lambda>n. 1700000000000000000 + 15625000 * int (n div 16))"
  "token (bankzClient bank_coarse) = Some
     \<lparr>AccessToken = ''token-1700000000000000000'', ExpiresAt = 1700003600000001000\<rparr>"
  "bz_accounts (bankzClient bank_coarse) ''bankz-acc-123'' =
     Some \<lparr>m_AccountID = ''bankz-acc-123'', m_Balance = Finite 1000\<rparr>"
  "bz_accounts (bankzClient bank_coarse) ''bankz-acc-456'' =
     Some \<lparr>m_AccountID = ''bankz-acc-456'', m_Balance = Finite 500\<rparr>"
  by (simp_all add: bank_coarse_def bank1_def NewMockClient_def f64_1000 f64_500)

lemma fmt_d_example: "fmt_d 1700000000000000000 = ''1700000000000000000''"
  by (simp add: fmt_d_def digits_numeral)

lemma round64_1100: "round64 (1100) = Finite (1100)"
  by (subst round64_eval [where e = "10" and q = "1 / 2 ^ 42" and m = "4837851162214400"])
     (simp_all add: round_evals)

lemma round64_550: "round64 (550) = Finite (550)"
  by (subst round64_eval [where e = "9" and q = "1 / 2 ^ 43" and m = "4837851162214400"])
     (simp_all add: round_evals)

lemma round64_450: "round64 (450) = Finite (450)"
  by (subst round64_eval [where e = "8" and q = "1 / 2 ^ 44" and m = "7916483719987200"])
     (simp_all add: round_evals)


lemma first_transfer_eq:
  "first_transfer =
    ((StatusCreated, TransferDone ''bankz-tx-1700000000000000000'' ''success''),
     bank_coarse\<lparr>ticks := 7,
       bankzClient := (bankzClient bank_coarse)\<lparr>bz_accounts :=
         (bz_accounts (bankzClient bank_coarse))
         (''bankz-acc-123'' \<mapsto> \<lparr>m_AccountID = ''bankz-acc-123'', m_Balance = Finite 1100\<rparr>)\<rparr>,
       GlobalStore := (GlobalStore bank)
         \<lparr>accounts := (accounts (GlobalStore bank))(''cur1'' \<mapsto>
            cur1\<lparr>a_Balance := Finite 900\<rparr>),
          transactions := (transactions (GlobalStore bank))(''bankz-tx-1700000000000000000'' \<mapsto>
            \<lparr>t_ID = ''bankz-tx-1700000000000000000'', t_AccountID = ''cur1'',
             t_CustomerID = ''c1'', t_Type = ''bankz_transfer'',
             t_Amount = Finite 100, t_FromAccountID = ''cur1'',
             t_ToAccountID = ''bankz-acc-123'', t_CreatedAt = 1700000000000000000\<rparr>)\<rparr>\<rparr>)"
proof -
  let ?req =
    "\<lparr>FromAccountID = ''cur1'', ToAccountID = ''bankz-acc-123'', Amount = Finite 100\<rparr>"
  have e: "transferErrors ?req = []"
    by (simp add: transferErrors_def f64_0)
  have pre: "cur1 = \<lparr>a_ID = ''cur1'', a_CustomerID = ''c1'', a_Type = ''current'',
      a_Balance = Finite 1000, a_CreatedAt = 1690000000000000000\<rparr>"
    by (simp add: cur1_def)
  show ?thesis
    unfolding first_transfer_def
    using transferMoney_external_ok [where req = ?req and w = bank_coarse
        and customerID = "''c1''" and fromAccount = cur1
        and tk = "\<lparr>AccessToken = ''token-1700000000000000000'',
                   ExpiresAt = 1700003600000001000\<rparr>"
        and account = "\<lparr>m_AccountID = ''bankz-acc-123'', m_Balance = Finite 1000\<rparr>"
        and transactionID = "''bankz-tx-1700000000000000000''"]
    by (simp add: e bank_coarse_facts bank_store After_def Before_def fmt_d_example round64_1100
         fsub_def round64_values pre)
qed


lemma after_first_facts:
  "ticks (snd first_transfer) = 7"
  "clock (snd first_transfer) = (\<lambda>n. 1700000000000000000 + 15625000 * int (n div 16))"
  "token (bankzClient (snd first_transfer)) = Some
     \<lparr>AccessToken = ''token-1700000000000000000'', ExpiresAt = 1700003600000001000\<rparr>"
  "bz_accounts (bankzClient (snd first_transfer)) ''bankz-acc-456'' =
     Some \<lparr>m_AccountID = ''bankz-acc-456'', m_Balance = Finite 500\<rparr>"
  "customers (GlobalStore (snd first_transfer)) ''c1'' \<noteq> None"
  "accounts (GlobalStore (snd first_transfer)) ''sav1'' = Some sav1"
  "accounts (GlobalStore (snd first_transfer)) ''bankz-acc-456'' = None"
  "accounts (GlobalStore (snd first_transfer)) ''cur1'' = Some (cur1\<lparr>a_Balance := Finite 900\<rparr>)"
  "transactions (GlobalStore (snd first_transfer)) ''bankz-tx-1700000000000000000'' =
     Some \<lparr>t_ID = ''bankz-tx-1700000000000000000'', t_AccountID = ''cur1'',
          t_CustomerID = ''c1'', t_Type = ''bankz_transfer'',
          t_Amount = Finite 100, t_FromAccountID = ''cur1'',
          t_ToAccountID = ''bankz-acc-123'', t_CreatedAt = 1700000000000000000\<rparr>"
  unfolding first_transfer_eq
  by (simp_all add: bank_coarse_facts bank_store) (simp_all add: bank_def)

lemma second_transfer_eq:
  "fst second_transfer =
     (StatusCreated, TransferDone ''bankz-tx-1700000000000000000'' ''success'')"
  "transactions (GlobalStore (snd second_transfer)) ''bankz-tx-1700000000000000000'' =
     Some \<lparr>t_ID = ''bankz-tx-1700000000000000000'', t_AccountID = ''sav1'',
          t_CustomerID = ''c1'', t_Type = ''bankz_transfer'',
          t_Amount = Finite 50, t_FromAccountID = ''sav1'',
          t_ToAccountID = ''bankz-acc-456'', t_CreatedAt = 1700000000000000000\<rparr>"
  "accounts (GlobalStore (snd second_transfer)) ''cur1'' =
     Some (cur1\<lparr>a_Balance := Finite 900\<rparr>)"
proof -
  let ?req =
    "\<lparr>FromAccountID = ''sav1'', ToAccountID = ''bankz-acc-456'', Amount = Finite 50\<rparr>"
  have e: "transferErrors ?req = []"
    by (simp add: transferErrors_def f64_0)
  have pre: "sav1 = \<lparr>a_ID = ''sav1'', a_CustomerID = ''c1'', a_Type = ''savings'',
      a_Balance = Finite 500, a_CreatedAt = 1690000000000000000\<rparr>"
    by (simp add: sav1_def)
  have t: "transferMoney ''c1'' (Some ?req) (snd first_transfer) =
    ((StatusCreated, TransferDone ''bankz-tx-1700000000000000000'' ''success''),
     (snd first_transfer)\<lparr>ticks := 12,
       bankzClient := (bankzClient (snd first_transfer))\<lparr>bz_accounts :=
         (bz_accounts (bankzClient (snd first_transfer)))
         (''bankz-acc-456'' \<mapsto> \<lparr>m_AccountID = ''bankz-acc-456'', m_Balance = Finite 550\<rparr>)\<rparr>,
       GlobalStore := (GlobalStore (snd first_transfer))
         \<lparr>accounts := (accounts (GlobalStore (snd first_transfer)))(''sav1'' \<mapsto>
            sav1\<lparr>a_Balance := Finite 450\<rparr>),
          transactions := (transactions (GlobalStore (snd first_transfer)))
           (''bankz-tx-1700000000000000000'' \<mapsto>
            \<lparr>t_ID = ''bankz-tx-1700000000000000000'', t_AccountID = ''sav1'',
             t_CustomerID = ''c1'', t_Type = ''bankz_transfer'',
             t_Amount = Finite 50, t_FromAccountID = ''sav1'',
             t_ToAccountID = ''bankz-acc-456'', t_CreatedAt = 1700000000000000000\<rparr>)\<rparr>\<rparr>)"
    using transferMoney_external_ok [where req = ?req and w = "snd first_transfer"
        and customerID = "''c1''" and fromAccount = sav1
        and tk = "\<lparr>AccessToken = ''token-1700000000000000000'',
                   ExpiresAt = 1700003600000001000\<rparr>"
        and account = "\<lparr>m_AccountID = ''bankz-acc-456'', m_Balance = Finite 500\<rparr>"
        and transactionID = "''bankz-tx-1700000000000000000''"]
    by (simp add: e after_first_facts After_def Before_def
         fmt_d_example round64_550 round64_450 fsub_def pre)
  show "fst second_transfer =
     (StatusCreated, TransferDone ''bankz-tx-1700000000000000000'' ''success'')"
    by (simp add: second_transfer_def t)
  show "transactions (GlobalStore (snd second_transfer)) ''bankz-tx-1700000000000000000'' =
     Some \<lparr>t_ID = ''bankz-tx-1700000000000000000'', t_AccountID = ''sav1'',
          t_CustomerID = ''c1'', t_Type = ''bankz_transfer'',
          t_Amount = Finite 50, t_FromAccountID = ''sav1'',
          t_ToAccountID = ''bankz-acc-456'', t_CreatedAt = 1700000000000000000\<rparr>"
    by (simp add: second_transfer_def t)
  show "accounts (GlobalStore (snd second_transfer)) ''cur1'' =
     Some (cur1\<lparr>a_Balance := Finite 900\<rparr>)"
    by (simp add: second_transfer_def t after_first_facts pre)
qed

lemma keeps_refl: "keeps w w"
  by (simp add: keeps_def)

lemma keeps_trans:
  assumes "keeps w w'" and "keeps w' w''"
  shows "keeps w w''"
proof -
  from assms have env: "clock w' = clock w" "uuid_source w' = uuid_source w"
    "clock w'' = clock w" "uuid_source w'' = uuid_source w"
    "ticks w \<le> ticks w'" "ticks w' \<le> ticks w''"
    "uuid_count w \<le> uuid_count w'" "uuid_count w' \<le> uuid_count w''"
    by (simp_all add: keeps_def)
  have stay: "\<forall>k. transactions (GlobalStore w) k \<noteq> None \<longrightarrow>
      transactions (GlobalStore w'') k \<noteq> None"
    using assms by (simp add: keeps_def)
  have same: "transactions (GlobalStore w'') k = transactions (GlobalStore w) k"
    if u: "\<forall>i. uuid_count w \<le> i \<and> i < uuid_count w'' \<longrightarrow> uuid_source w i \<noteq> k"
      and c: "\<forall>i. ticks w \<le> i \<and> i < ticks w'' \<longrightarrow> ''bankz-tx-'' @ fmt_d (clock w i) \<noteq> k"
    for k
  proof -
    have "transactions (GlobalStore w') k = transactions (GlobalStore w) k"
      using assms(1) u c env by (simp add: keeps_def)
    moreover have "transactions (GlobalStore w'') k = transactions (GlobalStore w') k"
      using assms(2) u c env by (simp add: keeps_def)
    ultimately show ?thesis by simp
  qed
  from env stay same show ?thesis
    by (simp add: keeps_def)
qed

lemma keeps_createCustomer:
  assumes "createCustomer body w = (r, w')"
  shows "keeps w w'"
proof (cases "fst r = StatusCreated")
  case True
  with assms have "fst (fst (createCustomer body w)) = StatusCreated" by simp
  then have "\<exists>req. body = Some req \<and> customerErrors req = [] \<and>
      transactions (GlobalStore w') =
        (transactions (GlobalStore w))(uuid_source w (uuid_count w + 3) \<mapsto>
          \<lparr>t_ID = uuid_source w (uuid_count w + 3),
           t_AccountID = uuid_source w (uuid_count w + 2),
           t_CustomerID = uuid_source w (uuid_count w), t_Type = ''bonus'',
           t_Amount = Finite 500, t_FromAccountID = [], t_ToAccountID = [],
           t_CreatedAt = clock w (ticks w)\<rparr>)
      \<and> clock w' = clock w \<and> uuid_source w' = uuid_source w
      \<and> ticks w' = Suc (ticks w) \<and> uuid_count w' = uuid_count w + 4"
    using assms
    by (cases body)
       (auto simp: createCustomer_def Let_def split_def uuid_New_def time_Now_def store_defs
         status_defs f64_500 eval_nat_numeral split: if_splits)
  then obtain req where tx: "transactions (GlobalStore w') =
        (transactions (GlobalStore w))(uuid_source w (uuid_count w + 3) \<mapsto>
          \<lparr>t_ID = uuid_source w (uuid_count w + 3),
           t_AccountID = uuid_source w (uuid_count w + 2),
           t_CustomerID = uuid_source w (uuid_count w), t_Type = ''bonus'',
           t_Amount = Finite 500, t_FromAccountID = [], t_ToAccountID = [],
           t_CreatedAt = clock w (ticks w)\<rparr>)"
    and env: "clock w' = clock w" "uuid_source w' = uuid_source w"
      "ticks w' = Suc (ticks w)" "uuid_count w' = uuid_count w + 4"
    by blast
  have "transactions (GlobalStore w') k = transactions (GlobalStore w) k"
    if "\<forall>i. uuid_count w \<le> i \<and> i < uuid_count w' \<longrightarrow> uuid_source w i \<noteq> k" for k
  proof -
    from that env have "uuid_source w (uuid_count w + 3) \<noteq> k" by simp
    with tx show ?thesis by simp
  qed
  with tx env show ?thesis
    by (simp add: keeps_def)
next
  case False
  with assms have "w' = w"
    by (cases body)
       (auto simp: createCustomer_def Let_def split_def split: if_splits)
  then show ?thesis by (simp add: keeps_refl)
qed

lemma InitiateTransfer_Inr:
  assumes "InitiateTransfer fromID toID tok amount w = (Inr transactionID, w')"
  shows "\<exists>i. ticks w \<le> i \<and> i < ticks w' \<and> transactionID = ''bankz-tx-'' @ fmt_d (clock w i)"
proof -
  obtain v w1 where v: "validateToken tok w = (v, w1)"
    by (cases "validateToken tok w")
  note fr = validateToken_frame [OF v]
  from assms v have "transactionID = ''bankz-tx-'' @ fmt_d (clock w (ticks w1))"
    "ticks w' = Suc (ticks w1)"
    using fr
    by (auto simp: InitiateTransfer_def Let_def split_def time_Now_def
        split: option.splits if_splits)
  with fr show ?thesis by auto
qed

lemma keeps_internalTransfer:
  assumes "internalTransfer customerID req fromAccount toAccount w = (r, w')"
  shows "keeps w w'"
proof (cases "flt (a_Balance fromAccount)
     (fadd (Amount req) (if a_Type fromAccount = ''current''
        then fmul (Amount req) const_0_0005 else Finite 0))")
  case True
  from internalTransfer_rejected [OF True] assms have "w' = w" by simp
  then show ?thesis by (simp add: keeps_refl)
next
  case False
  note tx = internalTransfer_tx_frame [OF False assms]
  then show ?thesis
    unfolding keeps_def by (intro conjI) (simp_all, metis)
qed


lemma keeps_frameI:
  assumes "GlobalStore w' = GlobalStore w" and "clock w' = clock w"
    and "uuid_source w' = uuid_source w" and "ticks w \<le> ticks w'"
    and "uuid_count w \<le> uuid_count w'"
  shows "keeps w w'"
  using assms by (simp add: keeps_def)

lemma keeps_externalTransfer:
  assumes "externalTransfer customerID req tok fromAccount w = (r, w')"
  shows "keeps w w'"
proof (cases "flt (a_Balance fromAccount) (Amount req)")
  case True
  with assms have "w' = w" by (simp add: externalTransfer_def)
  then show ?thesis by (simp add: keeps_refl)
next
  case False
  obtain i w1 where i:
    "InitiateTransfer (a_ID fromAccount) (ToAccountID req) tok (Amount req) w = (i, w1)"
    by (cases "InitiateTransfer (a_ID fromAccount) (ToAccountID req) tok (Amount req) w")
  note fr = InitiateTransfer_frame [OF i]
  show ?thesis
  proof (cases i)
    case (Inl err)
    with assms False i have "w' = w1" by (simp add: externalTransfer_def)
    with fr show ?thesis by (simp add: keeps_frameI)
  next
    case (Inr transactionID)
    with assms False i have
      "externalTransfer customerID req tok fromAccount w =
         ((StatusCreated, TransferDone transactionID ''success''), w')"
      by (auto simp: externalTransfer_def Let_def split_def)
    from externalTransfer_Created [OF this] i Inr
    have tx: "transactions (GlobalStore w') = (transactions (GlobalStore w))
             (transactionID \<mapsto>
               \<lparr>t_ID = transactionID, t_AccountID = a_ID fromAccount,
                t_CustomerID = customerID, t_Type = ''bankz_transfer'',
                t_Amount = Amount req, t_FromAccountID = a_ID fromAccount,
                t_ToAccountID = ToAccountID req, t_CreatedAt = clock w1 (ticks w1)\<rparr>)"
      and env: "clock w' = clock w1" "uuid_source w' = uuid_source w1"
        "uuid_count w' = uuid_count w1" "ticks w' = Suc (ticks w1)"
      by auto
    from InitiateTransfer_Inr [OF i [unfolded Inr]] obtain n where
      n: "ticks w \<le> n" "n < ticks w1" "transactionID = ''bankz-tx-'' @ fmt_d (clock w n)"
      by blast
    have "transactions (GlobalStore w') k = transactions (GlobalStore w) k"
      if "\<forall>i. ticks w \<le> i \<and> i < ticks w' \<longrightarrow> ''bankz-tx-'' @ fmt_d (clock w i) \<noteq> k" for k
    proof -
      from that n env have "transactionID \<noteq> k" by simp
      with tx show ?thesis by simp
    qed
    with tx env fr show ?thesis
      by (simp add: keeps_def)
  qed
qed

lemma keeps_transferMoney:
  assumes "transferMoney customerID body w = (r, w')"
  shows "keeps w w'"
proof (cases body)
  case None
  with assms have "w' = w" by (simp add: transferMoney_def)
  then show ?thesis by (simp add: keeps_refl)
next
  case (Some req)
  show ?thesis
  proof (cases "transferErrors req = []")
    case False
    with assms Some have "w' = w" by (simp add: transferMoney_def Let_def)
    then show ?thesis by (simp add: keeps_refl)
  next
    case True
    obtain c w1 where c: "checkSource customerID req w = (c, w1)"
      by (cases "checkSource customerID req w")
    have k1: "keeps w w1"
      using checkSource_frame [OF c] by (simp add: keeps_frameI)
    show ?thesis
    proof (cases c)
      case (Inl resp)
      with assms Some True c have "w' = w1" by (simp add: transferMoney_def)
      with k1 show ?thesis by simp
    next
      case (Inr p)
      obtain tok fromAccount where p: "p = (tok, fromAccount)" by (cases p)
      obtain d w2 where d: "resolveDestination customerID req tok w1 = (d, w2)"
        by (cases "resolveDestination customerID req tok w1")
      have k2: "keeps w1 w2"
        using resolveDestination_frame [OF d] by (simp add: keeps_frameI)
      have k3: "keeps w2 w'"
      proof (cases d)
        case (Inl resp)
        with assms Some True c Inr p d have "w' = w2" by (simp add: transferMoney_def)
        then show ?thesis by (simp add: keeps_refl)
      next
        case dest: (Inr dst)
        show ?thesis
        proof (cases dst)
          case (Internal toAccount)
          with assms Some True c Inr p d dest
          have "internalTransfer customerID req fromAccount toAccount w2 = (r, w')"
            by (simp add: transferMoney_def)
          then show ?thesis by (rule keeps_internalTransfer)
        next
          case External
          with assms Some True c Inr p d dest
          have "externalTransfer customerID req tok fromAccount w2 = (r, w')"
            by (simp add: transferMoney_def)
          then show ?thesis by (rule keeps_externalTransfer)
        qed
      qed
      from k1 k2 k3 show ?thesis by (blast intro: keeps_trans)
    qed
  qed
qed

lemma keeps_serve: "keeps w (snd (serve r w))"
proof (cases r)
  case (PostCustomer body)
  then show ?thesis
    using keeps_createCustomer [of body w "fst (createCustomer body w)"
        "snd (createCustomer body w)"] by simp
next
  case (PostTransfer customerID body)
  then show ?thesis
    using keeps_transferMoney [of customerID body w "fst (transferMoney customerID body w)"
        "snd (transferMoney customerID body w)"] by simp
qed

lemma keeps_serve_all: "keeps w (serve_all rs w)"
proof (induction rs arbitrary: w)
  case Nil
  show ?case by (simp add: keeps_refl)
next
  case (Cons r rs)
  have "keeps w (snd (serve r w))" by (rule keeps_serve)
  moreover have "keeps (snd (serve r w)) (serve_all rs (snd (serve r w)))" by (rule Cons.IH)
  ultimately show ?case by (simp add: keeps_trans)
qed


text \<open>The rounding is what its description says: the exponent is the right one, and the
  result is within half a unit in the last place.\<close>

lemma pow2_add: "pow2 (k + 1) = 2 * pow2 k"
proof (cases "0 \<le> k")
  case True
  then show ?thesis by (simp add: pow2_def nat_add_distrib)
next
  case False
  then have "nat (- k) = Suc (nat (- (k + 1)))" by simp
  with False show ?thesis by (auto simp: pow2_def)
qed

lemma ilog2_bounds:
  assumes "0 < a"
  shows "pow2 (ilog2 a) \<le> a \<and> a < pow2 (ilog2 a + 1)"
proof (cases "1 \<le> a")
  case True
  define n where "n = nat \<lfloor>a\<rfloor>"
  define b where "b = floorlog 2 n"
  have n: "0 < n" using True by (simp add: n_def)
  from floorlog_bounds [OF n, of 2] have fb: "2 ^ (b - 1) \<le> n" "n < 2 ^ b"
    by (simp_all add: b_def)
  have b: "0 < b" using n by (simp add: b_def floorlog_def)
  have na: "of_nat n \<le> a" "a < of_nat n + 1"
    using True by (simp_all add: n_def) linarith+
  have i: "ilog2 a = int b - 1"
    using True by (simp add: ilog2_def n_def b_def)
  have lo: "pow2 (int b - 1) = 2 ^ (b - 1)"
    using b by (simp add: pow2_def nat_diff_distrib')
  have hi: "pow2 (int b) = 2 ^ b"
    by (simp add: pow2_def)
  have l: "(2::rat) ^ (b - 1) \<le> of_nat n"
    using fb(1) by (metis of_nat_le_iff of_nat_numeral of_nat_power)
  have u: "of_nat n + 1 \<le> (2::rat) ^ b"
  proof -
    from fb(2) have "n + 1 \<le> 2 ^ b" by simp
    then have "(of_nat (n + 1) :: rat) \<le> of_nat (2 ^ b)" by (simp only: of_nat_le_iff)
    then show ?thesis by simp
  qed
  from l na(1) have "(2::rat) ^ (b - 1) \<le> a" by linarith
  moreover from u na(2) have "a < (2::rat) ^ b" by linarith
  ultimately show ?thesis
    by (simp only: i lo hi diff_add_cancel)
next
  case False
  define n where "n = nat \<lfloor>1 / a\<rfloor>"
  define b where "b = floorlog 2 n"
  have inv: "1 < 1 / a" using assms False by simp
  have n: "0 < n" using inv by (simp add: n_def)
  from floorlog_bounds [OF n, of 2] have fb: "2 ^ (b - 1) \<le> n" "n < 2 ^ b"
    by (simp_all add: b_def)
  have b: "0 < b" using n by (simp add: b_def floorlog_def)
  have na: "of_nat n \<le> 1 / a" "1 / a < of_nat n + 1"
    using inv by (simp_all add: n_def) linarith+
  have p1: "(2::rat) ^ (b - 1) \<le> 1 / a"
  proof -
    have "(2::rat) ^ (b - 1) \<le> of_nat n"
      using fb(1) by (metis of_nat_le_iff of_nat_numeral of_nat_power)
    with na(1) show ?thesis by linarith
  qed
  have p2: "1 / a < (2::rat) ^ b"
  proof -
    from fb(2) have "n + 1 \<le> 2 ^ b" by simp
    then have "(of_nat (n + 1) :: rat) \<le> of_nat (2 ^ b)" by (simp only: of_nat_le_iff)
    then have "of_nat n + 1 \<le> (2::rat) ^ b" by simp
    with na(2) show ?thesis by linarith
  qed
  have lo: "pow2 (1 - int b) = 1 / 2 ^ (b - 1)"
    using b by (auto simp: pow2_def nat_diff_distrib')
  have hi: "pow2 (- int b) = 1 / 2 ^ b"
    using b by (simp add: pow2_def)
  have up: "a \<le> 1 / 2 ^ (b - 1)"
    using p1 assms by (simp add: field_simps)
  have down: "1 / 2 ^ b < a"
    using p2 assms by (simp add: field_simps)
  have two: "(1::rat) / 2 ^ (b - 1) = 2 * (1 / 2 ^ b)"
    using b by (cases b) simp_all
  show ?thesis
  proof (cases "a = pow2 (1 - int b)")
    case True
    then have i: "ilog2 a = 1 - int b"
      using False by (simp add: ilog2_def Let_def n_def b_def)
    have e: "pow2 (ilog2 a) = a" by (simp only: i True [symmetric])
    have "pow2 (ilog2 a + 1) = 2 * a" by (simp only: pow2_add e)
    with e assms show ?thesis by (simp only:) simp
  next
    case ne: False
    then have i: "ilog2 a = - int b"
      using False by (simp add: ilog2_def Let_def n_def b_def)
    have "pow2 (- int b + 1) = pow2 (1 - int b)" by (simp add: algebra_simps)
    with ne up down show ?thesis by (simp add: i lo hi)
  qed
qed

lemma round_half_even_near: "\<bar>of_int (round_half_even n) - n\<bar> \<le> 1 / 2"
proof -
  define f where "f = \<lfloor>n\<rfloor>"
  have fr: "of_int f \<le> n" "n < of_int f + 1"
    unfolding f_def by linarith+
  have "round_half_even n =
     (if n - of_int f < 1 / 2 then f else if 1 / 2 < n - of_int f then f + 1
      else if even f then f else f + 1)"
    by (simp add: round_half_even_def Let_def f_def)
  with fr show ?thesis
    by (auto simp: abs_if)
qed

lemma round64_near:
  assumes "round64 x = Finite y"
  shows "\<bar>y - x\<bar> \<le> pow2 (max (ilog2 \<bar>x\<bar>) (- 1022) - 52) / 2"
proof (cases "x = 0")
  case True
  with assms show ?thesis by (simp add: round64_def pow2_pos less_imp_le)
next
  case False
  define q where "q = pow2 (max (ilog2 \<bar>x\<bar>) (- 1022) - 52)"
  define m where "m = round_half_even (\<bar>x\<bar> / q)"
  have q: "0 < q" by (simp add: q_def pow2_pos)
  from assms False have y: "y = (if 0 < x then of_int m * q else - (of_int m * q))"
    by (simp add: round64_def Let_def q_def m_def split: if_splits)
  have "\<bar>of_int m - \<bar>x\<bar> / q\<bar> \<le> 1 / 2"
    unfolding m_def by (rule round_half_even_near)
  then have "\<bar>of_int m - \<bar>x\<bar> / q\<bar> * q \<le> 1 / 2 * q"
    using q by (simp only: mult_le_cancel_right_pos)
  then have "\<bar>(of_int m - \<bar>x\<bar> / q) * q\<bar> \<le> q / 2"
    using q by (simp add: abs_mult)
  then have "\<bar>of_int m * q - \<bar>x\<bar>\<bar> \<le> q / 2"
    using q by (simp add: left_diff_distrib)
  then show ?thesis
    unfolding q_def [symmetric] using False by (auto simp: y abs_if split: if_splits)
qed


text \<open>Every store that a sequence of requests reaches from the empty store is \<open>store_ok\<close>.\<close>

lemma store_ok_world0: "store_ok (GlobalStore world0)"
  by (simp add: store_ok_def world0_def)

lemma store_ok_update:
  assumes "store_ok s" and "accounts s' = (accounts s)(a_ID a \<mapsto> a)"
  shows "store_ok s'"
  using assms by (auto simp: store_ok_def)

lemma store_ok_createCustomer:
  assumes "store_ok (GlobalStore w)" and "createCustomer body w = (r, w')"
  shows "store_ok (GlobalStore w')"
proof (cases body)
  case None
  with assms show ?thesis by (simp add: createCustomer_def)
next
  case (Some req)
  show ?thesis
  proof (cases "customerErrors req = []")
    case False
    with assms Some show ?thesis by (simp add: createCustomer_def Let_def)
  next
    case True
    with assms Some show ?thesis
      by (auto simp: createCustomer_def Let_def split_def uuid_New_def time_Now_def store_defs
          store_ok_def split: if_splits)
  qed
qed

lemma store_ok_internalTransfer:
  assumes "store_ok (GlobalStore w)"
    and "internalTransfer customerID req fromAccount toAccount w = (r, w')"
  shows "store_ok (GlobalStore w')"
proof (cases "flt (a_Balance fromAccount)
     (fadd (Amount req) (if a_Type fromAccount = ''current''
        then fmul (Amount req) const_0_0005 else Finite 0))")
  case True
  from internalTransfer_rejected [OF True] assms show ?thesis by simp
next
  case False
  from internalTransfer_accepted [OF False assms(2)] assms(1) show ?thesis
    by (auto simp: store_ok_def split: if_splits)
qed

lemma store_ok_externalTransfer:
  assumes "store_ok (GlobalStore w)"
    and "externalTransfer customerID req tok fromAccount w = (r, w')"
  shows "store_ok (GlobalStore w')"
proof (cases "fst r = StatusCreated")
  case True
  then obtain j where "r = (StatusCreated, j)" by (cases r) simp
  from externalTransfer_Created [OF assms(2) [unfolded this]] assms(1) show ?thesis
    by (auto simp: store_ok_def split: if_splits)
next
  case False
  obtain i w1 where i:
    "InitiateTransfer (a_ID fromAccount) (ToAccountID req) tok (Amount req) w = (i, w1)"
    by (cases "InitiateTransfer (a_ID fromAccount) (ToAccountID req) tok (Amount req) w")
  from False assms(2) i have "GlobalStore w' = GlobalStore w"
    using InitiateTransfer_frame [OF i]
    by (cases i)
       (auto simp: externalTransfer_def Let_def split_def time_Now_def split: if_splits)
  with assms(1) show ?thesis by simp
qed

lemma store_ok_transferMoney:
  assumes "store_ok (GlobalStore w)" and "transferMoney customerID body w = (r, w')"
  shows "store_ok (GlobalStore w')"
proof (cases body)
  case None
  with assms show ?thesis by (simp add: transferMoney_def)
next
  case (Some req)
  show ?thesis
  proof (cases "transferErrors req = []")
    case False
    with assms Some show ?thesis by (simp add: transferMoney_def Let_def)
  next
    case True
    obtain c w1 where c: "checkSource customerID req w = (c, w1)"
      by (cases "checkSource customerID req w")
    have k1: "store_ok (GlobalStore w1)"
      using checkSource_frame [OF c] assms(1) by simp
    show ?thesis
    proof (cases c)
      case (Inl resp)
      with assms Some True c have "w' = w1" by (simp add: transferMoney_def)
      with k1 show ?thesis by simp
    next
      case (Inr p)
      obtain tok fromAccount where p: "p = (tok, fromAccount)" by (cases p)
      obtain d w2 where d: "resolveDestination customerID req tok w1 = (d, w2)"
        by (cases "resolveDestination customerID req tok w1")
      have k2: "store_ok (GlobalStore w2)"
        using resolveDestination_frame [OF d] k1 by simp
      show ?thesis
      proof (cases d)
        case (Inl resp)
        with assms Some True c Inr p d have "w' = w2" by (simp add: transferMoney_def)
        with k2 show ?thesis by simp
      next
        case dest: (Inr dst)
        show ?thesis
        proof (cases dst)
          case (Internal toAccount)
          with assms Some True c Inr p d dest
          have "internalTransfer customerID req fromAccount toAccount w2 = (r, w')"
            by (simp add: transferMoney_def)
          with k2 show ?thesis by (rule store_ok_internalTransfer)
        next
          case External
          with assms Some True c Inr p d dest
          have "externalTransfer customerID req tok fromAccount w2 = (r, w')"
            by (simp add: transferMoney_def)
          with k2 show ?thesis by (rule store_ok_externalTransfer)
        qed
      qed
    qed
  qed
qed

lemma store_ok_serve_all:
  "store_ok (GlobalStore w) \<Longrightarrow> store_ok (GlobalStore (serve_all rs w))"
proof (induction rs arbitrary: w)
  case Nil
  then show ?case by simp
next
  case (Cons r rs)
  have "store_ok (GlobalStore (snd (serve r w)))"
  proof (cases r)
    case (PostCustomer body)
    with Cons.prems show ?thesis
      using store_ok_createCustomer [of w body "fst (createCustomer body w)"
          "snd (createCustomer body w)"] by simp
  next
    case (PostTransfer customerID body)
    with Cons.prems show ?thesis
      using store_ok_transferMoney [of w customerID body
          "fst (transferMoney customerID body w)" "snd (transferMoney customerID body w)"]
      by simp
  qed
  then show ?case by (simp add: Cons.IH)
qed


lemma transferMoney_internal:
  assumes "transferErrors req = []"
    and "checkSource customerID req w = (Inr (tok, fromAccount), w1)"
    and "accounts (GlobalStore w) (ToAccountID req) = Some toAccount"
    and "a_CustomerID toAccount = customerID"
  shows "transferMoney customerID (Some req) w =
    internalTransfer customerID req fromAccount toAccount w1"
proof -
  have "GlobalStore w1 = GlobalStore w"
    using checkSource_frame [OF assms(2)] by simp
  with assms show ?thesis
    by (simp add: transferMoney_def resolveDestination_def store_defs)
qed

text \<open>
  What does hold of the stored transactions over any sequence of requests: an ID never
  leaves the store, and the record under it is unchanged when no UUID drawn and no clock
  reading taken during the sequence gives that ID.
\<close>

lemma transactions_kept:
  assumes "transactions (GlobalStore w) k = Some t"
  shows "transactions (GlobalStore (serve_all rs w)) k \<noteq> None
    \<and> ((\<forall>i. uuid_count w \<le> i \<and> i < uuid_count (serve_all rs w) \<longrightarrow> uuid_source w i \<noteq> k)
        \<and> (\<forall>i. ticks w \<le> i \<and> i < ticks (serve_all rs w) \<longrightarrow>
              ''bankz-tx-'' @ fmt_d (clock w i) \<noteq> k) \<longrightarrow>
        transactions (GlobalStore (serve_all rs w)) k = Some t)"
proof -
  have "keeps w (serve_all rs w)" by (rule keeps_serve_all)
  with assms show ?thesis
    by (simp add: keeps_def)
qed

text \<open>
  C7. A call of \<open>createCustomer\<close> that answers 201 Created had a body that passed the
  checks, and it returns the state with exactly four records written: the customer with
  the name and email of the request, a \<open>current\<close> account of that customer with balance 0, a
  \<open>savings\<close> account of that customer with balance 500, and a \<open>bonus\<close> transaction of
  500 on the savings account; the response carries the customer ID and both account IDs.
\<close>

theorem createCustomer_success:
  assumes "fst (fst (createCustomer body w)) = StatusCreated"
  shows "\<exists>req. body = Some req \<and> customerErrors req = [] \<and>
    (let customerID = uuid_source w (uuid_count w);
         currentAccountID = uuid_source w (uuid_count w + 1);
         savingsAccountID = uuid_source w (uuid_count w + 2);
         bonusTransactionID = uuid_source w (uuid_count w + 3);
         now = clock w (ticks w);
         s = GlobalStore w
     in createCustomer body w =
        ((StatusCreated, CustomerCreated customerID currentAccountID savingsAccountID),
         w\<lparr>GlobalStore := s
            \<lparr>customers := (customers s)(customerID \<mapsto>
               \<lparr>c_ID = customerID, c_Name = Name req, c_Email = Email req\<rparr>),
             accounts := (accounts s)
               (currentAccountID \<mapsto>
                  \<lparr>a_ID = currentAccountID, a_CustomerID = customerID, a_Type = ''current'',
                   a_Balance = Finite 0, a_CreatedAt = now\<rparr>,
                savingsAccountID \<mapsto>
                  \<lparr>a_ID = savingsAccountID, a_CustomerID = customerID, a_Type = ''savings'',
                   a_Balance = Finite 500, a_CreatedAt = now\<rparr>),
             transactions := (transactions s)(bonusTransactionID \<mapsto>
               \<lparr>t_ID = bonusTransactionID, t_AccountID = savingsAccountID,
                t_CustomerID = customerID, t_Type = ''bonus'', t_Amount = Finite 500,
                t_FromAccountID = [], t_ToAccountID = [], t_CreatedAt = now\<rparr>)\<rparr>,
           ticks := Suc (ticks w), uuid_count := uuid_count w + 4\<rparr>))"
  using assms
  by (cases body; cases w)
     (simp_all add: createCustomer_def Let_def split_def uuid_New_def time_Now_def store_defs
       status_defs f64_0 f64_500 eval_nat_numeral split: if_splits)

theorem createCustomer_success_witness:
  "fst (fst (createCustomer (Some jane) world0)) = StatusCreated \<and>
   fst (createCustomer (Some jane) world0) =
     (StatusCreated, CustomerCreated ''uuid-0'' ''uuid-1'' ''uuid-2'') \<and>
   accounts (GlobalStore (snd (createCustomer (Some jane) world0))) ''uuid-2'' =
     Some \<lparr>a_ID = ''uuid-2'', a_CustomerID = ''uuid-0'', a_Type = ''savings'',
           a_Balance = Finite 500, a_CreatedAt = 1700000000000000000\<rparr>"
proof -
  have errs: "customerErrors jane = []"
    by (simp add: customerErrors_def jane_def regex_defs)
  have h: "fst (fst (createCustomer (Some jane) world0)) = StatusCreated"
    by (simp add: createCustomer_def errs Let_def split_def uuid_New_def time_Now_def)
  show ?thesis
    using createCustomer_success [OF h] h
    by (simp add: Let_def world0_def digits_numeral)
qed


text \<open>
  C8. \<open>GetToken\<close> returns the cached token, and mints none, while the expiry of that
  token is after the clock reading of the call. Otherwise (no token yet, or an expired one)
  it mints a token \<open>token-<clock reading>\<close> and caches it with an expiry of exactly one hour
  (\<open>Hour\<close> nanoseconds) after the clock reading taken when the token is built. So a call
  made while the token that an earlier call returned is still cached and unexpired returns
  that same token.
\<close>

theorem GetToken_caching:
  "(\<forall>tk. token (bankzClient w) = Some tk \<and> After (ExpiresAt tk) (clock w (ticks w)) \<longrightarrow>
      GetToken w = (Inr (AccessToken tk), w\<lparr>ticks := Suc (ticks w)\<rparr>))
   \<and> ((token (bankzClient w) = None \<and> n = ticks w
        \<or> (\<exists>tk. token (bankzClient w) = Some tk \<and> \<not> After (ExpiresAt tk) (clock w (ticks w)))
          \<and> n = Suc (ticks w)) \<longrightarrow>
      clientID (bankzClient w) = ''mock-client-id'' \<longrightarrow>
      clientSecret (bankzClient w) = ''mock-client-secret'' \<longrightarrow>
      GetToken w =
        (Inr (''token-'' @ fmt_d (clock w n)),
         w\<lparr>ticks := n + 2,
           bankzClient := (bankzClient w)\<lparr>token := Some
             \<lparr>AccessToken = ''token-'' @ fmt_d (clock w n),
              ExpiresAt = clock w (Suc n) + 3600000000000\<rparr>\<rparr>\<rparr>))
   \<and> (\<forall>tok w1 w2. GetToken w = (Inr tok, w1) \<longrightarrow>
        token (bankzClient w2) = token (bankzClient w1) \<longrightarrow>
        (\<forall>tk. token (bankzClient w1) = Some tk \<longrightarrow> After (ExpiresAt tk) (clock w2 (ticks w2))) \<longrightarrow>
        fst (GetToken w2) = Inr tok)"
proof (intro conjI allI impI)
  fix tk
  assume "token (bankzClient w) = Some tk \<and> After (ExpiresAt tk) (clock w (ticks w))"
  then show "GetToken w = (Inr (AccessToken tk), w\<lparr>ticks := Suc (ticks w)\<rparr>)"
    by (simp add: GetToken_def Let_def split_def time_Now_def)
next
  assume c: "token (bankzClient w) = None \<and> n = ticks w
      \<or> (\<exists>tk. token (bankzClient w) = Some tk \<and> \<not> After (ExpiresAt tk) (clock w (ticks w)))
        \<and> n = Suc (ticks w)"
    and id: "clientID (bankzClient w) = ''mock-client-id''"
    and sec: "clientSecret (bankzClient w) = ''mock-client-secret''"
  from c show "GetToken w =
        (Inr (''token-'' @ fmt_d (clock w n)),
         w\<lparr>ticks := n + 2,
           bankzClient := (bankzClient w)\<lparr>token := Some
             \<lparr>AccessToken = ''token-'' @ fmt_d (clock w n),
              ExpiresAt = clock w (Suc n) + 3600000000000\<rparr>\<rparr>\<rparr>)"
  proof
    assume "token (bankzClient w) = None \<and> n = ticks w"
    then show ?thesis
      using mintToken_ok [OF id sec] by (simp add: GetToken_def Hour_def)
  next
    assume "(\<exists>tk. token (bankzClient w) = Some tk \<and> \<not> After (ExpiresAt tk) (clock w (ticks w)))
        \<and> n = Suc (ticks w)"
    then obtain tk where tk: "token (bankzClient w) = Some tk"
      "\<not> After (ExpiresAt tk) (clock w (ticks w))" and n: "n = Suc (ticks w)"
      by blast
    have "mintToken (w\<lparr>ticks := Suc (ticks w)\<rparr>) =
      (Inr (''token-'' @ fmt_d (clock w n)),
         w\<lparr>ticks := n + 2,
           bankzClient := (bankzClient w)\<lparr>token := Some
             \<lparr>AccessToken = ''token-'' @ fmt_d (clock w n),
              ExpiresAt = clock w (Suc n) + 3600000000000\<rparr>\<rparr>\<rparr>)"
      using mintToken_ok [of "w\<lparr>ticks := Suc (ticks w)\<rparr>"] id sec n
      by (simp add: Hour_def)
    with tk show ?thesis
      by (simp add: GetToken_def Let_def split_def time_Now_def)
  qed
next
  fix tok and w1 w2 :: World
  assume g: "GetToken w = (Inr tok, w1)"
    and same: "token (bankzClient w2) = token (bankzClient w1)"
    and live: "\<forall>tk. token (bankzClient w1) = Some tk \<longrightarrow> After (ExpiresAt tk) (clock w2 (ticks w2))"
  from GetToken_caches [OF g] obtain tk where
    tk: "token (bankzClient w1) = Some tk" "AccessToken tk = tok"
    by blast
  with same live show "fst (GetToken w2) = Inr tok"
    by (simp add: GetToken_def Let_def split_def time_Now_def)
qed


theorem GetToken_caching_witness:
  "token (bankzClient world0) = None
   \<and> clientID (bankzClient world0) = ''mock-client-id''
   \<and> clientSecret (bankzClient world0) = ''mock-client-secret''
   \<and> fst (GetToken world0) = Inr ''token-1700000000000000000''
   \<and> token (bankzClient (snd (GetToken world0))) =
       Some \<lparr>AccessToken = ''token-1700000000000000000'', ExpiresAt = 1700003600000001000\<rparr>
   \<and> After 1700003600000001000
        (clock (snd (GetToken world0)) (ticks (snd (GetToken world0))))
   \<and> GetToken (snd (GetToken world0)) =
       (Inr ''token-1700000000000000000'', (snd (GetToken world0))\<lparr>ticks := 3\<rparr>)"
proof -
  have pre: "token (bankzClient world0) = None"
    "clientID (bankzClient world0) = ''mock-client-id''"
    "clientSecret (bankzClient world0) = ''mock-client-secret''"
    by (simp_all add: world0_def NewMockClient_def)
  have name: "fmt_d (clock world0 0) = ''1700000000000000000''"
    by (simp add: world0_def fmt_d_def digits_numeral)
  have mint: "GetToken world0 =
    (Inr ''token-1700000000000000000'',
     world0\<lparr>ticks := 2, bankzClient := (bankzClient world0)\<lparr>token := Some
       \<lparr>AccessToken = ''token-1700000000000000000'', ExpiresAt = 1700003600000001000\<rparr>\<rparr>\<rparr>)"
    using GetToken_caching [of world0 0] pre name by (simp add: world0_def)
  have live: "After 1700003600000001000
      (clock (snd (GetToken world0)) (ticks (snd (GetToken world0))))"
    unfolding mint by (simp add: After_def world0_def)
  have again: "GetToken (snd (GetToken world0)) =
      (Inr ''token-1700000000000000000'', (snd (GetToken world0))\<lparr>ticks := 3\<rparr>)"
    using GetToken_caching [of "snd (GetToken world0)"] live by (simp add: mint)
  from pre mint live again show ?thesis by simp
qed





text \<open>
  C4. For a request that passed the checks of the body, of the customer, of the token and
  of the source account, the destination is looked up in the store. An account found
  there that belongs to another customer ends the request with a 400 response; one that
  belongs to the customer makes the transfer internal. When the store has no such
  account and \<open>GetBalance\<close> of the partner bank succeeds the transfer is external; when
  \<open>GetBalance\<close> fails the request ends with the 400 response
  \<open>Destination account ... not found\<close>, which is neither the message for insufficient
  funds nor the one for a failed authentication, and the store is unchanged.
\<close>

theorem transferMoney_destination:
  assumes "transferErrors req = []"
    and "checkSource customerID req w = (Inr (tok, fromAccount), w1)"
  shows "(\<forall>toAccount. accounts (GlobalStore w) (ToAccountID req) = Some toAccount \<longrightarrow>
        a_CustomerID toAccount \<noteq> customerID \<longrightarrow>
        transferMoney customerID (Some req) w =
          ((StatusBadRequest,
            H_error ''Destination account does not belong to the customer''), w1))
   \<and> (\<forall>toAccount. accounts (GlobalStore w) (ToAccountID req) = Some toAccount \<longrightarrow>
        a_CustomerID toAccount = customerID \<longrightarrow>
        resolveDestination customerID req tok w1 = (Inr (Internal toAccount), w1)
        \<and> transferMoney customerID (Some req) w =
            internalTransfer customerID req fromAccount toAccount w1)
   \<and> (accounts (GlobalStore w) (ToAccountID req) = None \<longrightarrow>
        (\<forall>balance w2. GetBalance (ToAccountID req) tok w1 = (Inr balance, w2) \<longrightarrow>
           resolveDestination customerID req tok w1 = (Inr External, w2)
           \<and> transferMoney customerID (Some req) w =
               externalTransfer customerID req tok fromAccount w2)
      \<and> (\<forall>err w2. GetBalance (ToAccountID req) tok w1 = (Inl err, w2) \<longrightarrow>
           transferMoney customerID (Some req) w =
             ((StatusBadRequest,
               H_error (''Destination account '' @ ToAccountID req @ '' not found'')), w2)
           \<and> ''Destination account '' @ ToAccountID req @ '' not found'' \<noteq> ''Insufficient funds''
           \<and> ''Destination account '' @ ToAccountID req @ '' not found''
               \<noteq> ''Failed to authenticate with Bank Z''
           \<and> GlobalStore w2 = GlobalStore w))"
proof -
  have s1: "GlobalStore w1 = GlobalStore w"
    using checkSource_frame [OF assms(2)] by simp
  have tm: "transferMoney customerID (Some req) w =
    (case resolveDestination customerID req tok w1 of
       (Inl r, w2) \<Rightarrow> (r, w2)
     | (Inr External, w2) \<Rightarrow> externalTransfer customerID req tok fromAccount w2
     | (Inr (Internal toAccount), w2) \<Rightarrow>
         internalTransfer customerID req fromAccount toAccount w2)"
    using assms by (simp add: transferMoney_def)
  show ?thesis
  proof (intro conjI allI impI)
    fix toAccount
    assume "accounts (GlobalStore w) (ToAccountID req) = Some toAccount"
      "a_CustomerID toAccount \<noteq> customerID"
    then show "transferMoney customerID (Some req) w =
          ((StatusBadRequest,
            H_error ''Destination account does not belong to the customer''), w1)"
      by (simp add: tm resolveDestination_def store_defs s1)
  next
    fix toAccount
    assume a: "accounts (GlobalStore w) (ToAccountID req) = Some toAccount"
      "a_CustomerID toAccount = customerID"
    then show r: "resolveDestination customerID req tok w1 = (Inr (Internal toAccount), w1)"
      by (simp add: resolveDestination_def store_defs s1)
    show "transferMoney customerID (Some req) w =
            internalTransfer customerID req fromAccount toAccount w1"
      by (simp add: tm r)
  next
    fix balance w2
    assume a: "accounts (GlobalStore w) (ToAccountID req) = None"
      "GetBalance (ToAccountID req) tok w1 = (Inr balance, w2)"
    then show r: "resolveDestination customerID req tok w1 = (Inr External, w2)"
      by (simp add: resolveDestination_def store_defs s1)
    show "transferMoney customerID (Some req) w =
               externalTransfer customerID req tok fromAccount w2"
      by (simp add: tm r)
  next
    fix err w2
    assume a: "accounts (GlobalStore w) (ToAccountID req) = None"
      "GetBalance (ToAccountID req) tok w1 = (Inl err, w2)"
    then show "transferMoney customerID (Some req) w =
             ((StatusBadRequest,
               H_error (''Destination account '' @ ToAccountID req @ '' not found'')), w2)"
      by (simp add: tm resolveDestination_def store_defs s1)
    show "GlobalStore w2 = GlobalStore w"
      using GetBalance_frame [OF a(2)] s1 by simp
  qed simp_all
qed


theorem transferMoney_destination_witness:
  "transferErrors \<lparr>FromAccountID = ''cur1'', ToAccountID = ''sav2'', Amount = Finite 5\<rparr> = []
   \<and> checkSource ''c1'' \<lparr>FromAccountID = ''cur1'', ToAccountID = ''sav2'', Amount = Finite 5\<rparr>
        bank = (Inr (''token-1700000000000000000'', cur1), bank1)
   \<and> transferMoney ''c1''
        (Some \<lparr>FromAccountID = ''cur1'', ToAccountID = ''sav2'', Amount = Finite 5\<rparr>) bank =
      ((StatusBadRequest, H_error ''Destination account does not belong to the customer''),
       bank1)
   \<and> resolveDestination ''c1''
        \<lparr>FromAccountID = ''cur1'', ToAccountID = ''sav1'', Amount = Finite 5\<rparr>
        ''token-1700000000000000000'' bank1 = (Inr (Internal sav1), bank1)
   \<and> resolveDestination ''c1''
        \<lparr>FromAccountID = ''cur1'', ToAccountID = ''bankz-acc-123'', Amount = Finite 5\<rparr>
        ''token-1700000000000000000'' bank1 = (Inr External, bank1\<lparr>ticks := 3\<rparr>)
   \<and> transferMoney ''c1''
        (Some \<lparr>FromAccountID = ''cur1'', ToAccountID = ''sav3'', Amount = Finite 5\<rparr>) bank =
      ((StatusBadRequest, H_error ''Destination account sav3 not found''),
       bank1\<lparr>ticks := 3\<rparr>)"
proof -
  let ?other = "\<lparr>FromAccountID = ''cur1'', ToAccountID = ''sav2'', Amount = Finite 5\<rparr>"
  let ?own = "\<lparr>FromAccountID = ''cur1'', ToAccountID = ''sav1'', Amount = Finite 5\<rparr>"
  let ?partner =
    "\<lparr>FromAccountID = ''cur1'', ToAccountID = ''bankz-acc-123'', Amount = Finite 5\<rparr>"
  let ?missing = "\<lparr>FromAccountID = ''cur1'', ToAccountID = ''sav3'', Amount = Finite 5\<rparr>"
  let ?tok = "''token-1700000000000000000''"
  have e: "transferErrors ?other = []" "transferErrors ?own = []"
    "transferErrors ?partner = []" "transferErrors ?missing = []"
    by (simp_all add: transferErrors_def f64_0)
  have c: "checkSource ''c1'' ?other bank = (Inr (?tok, cur1), bank1)"
    "checkSource ''c1'' ?own bank = (Inr (?tok, cur1), bank1)"
    "checkSource ''c1'' ?partner bank = (Inr (?tok, cur1), bank1)"
    "checkSource ''c1'' ?missing bank = (Inr (?tok, cur1), bank1)"
    by (simp_all add: checkSource_bank)
  have r1: "transferMoney ''c1'' (Some ?other) bank =
      ((StatusBadRequest, H_error ''Destination account does not belong to the customer''),
       bank1)"
    using transferMoney_destination [OF e(1) c(1)] bank_store by simp
  have r2: "resolveDestination ''c1'' ?own ?tok bank1 = (Inr (Internal sav1), bank1)"
    using transferMoney_destination [OF e(2) c(2)] bank_store by (simp add: sav1_def)
  have r3: "resolveDestination ''c1'' ?partner ?tok bank1 =
      (Inr External, bank1\<lparr>ticks := 3\<rparr>)"
    using transferMoney_destination [OF e(3) c(3)] bank_store GetBalance_bank1 by simp
  have r4: "transferMoney ''c1'' (Some ?missing) bank =
      ((StatusBadRequest, H_error ''Destination account sav3 not found''),
       bank1\<lparr>ticks := 3\<rparr>)"
    using transferMoney_destination [OF e(4) c(4)] bank_store GetBalance_bank1 by simp
  from e(1) c(1) r1 r2 r3 r4 show ?thesis by simp
qed

text \<open>
  C2. In an external transfer (the destination is not in the store and \<open>GetBalance\<close>
  succeeded) with sufficient funds, when \<open>InitiateTransfer\<close> returns an error the
  request ends with a 400 response carrying that error, and the store is the one the
  request started with: the balance of the source account is unchanged and no
  transaction is added.
\<close>

theorem external_transfer_gateway_failure:
  assumes "transferErrors req = []"
    and "checkSource customerID req w = (Inr (tok, fromAccount), w1)"
    and "resolveDestination customerID req tok w1 = (Inr External, w2)"
    and "\<not> flt (a_Balance fromAccount) (Amount req)"
    and "InitiateTransfer (a_ID fromAccount) (ToAccountID req) tok (Amount req) w2 = (Inl err, w3)"
  shows "transferMoney customerID (Some req) w = ((StatusBadRequest, H_error err), w3)
    \<and> GlobalStore w3 = GlobalStore w
    \<and> accounts (GlobalStore w3) (FromAccountID req) = Some fromAccount
    \<and> transactions (GlobalStore w3) = transactions (GlobalStore w)"
proof -
  have s: "GlobalStore w3 = GlobalStore w"
    using checkSource_frame [OF assms(2)] resolveDestination_frame [OF assms(3)]
      InitiateTransfer_frame [OF assms(5)] by simp
  have a: "accounts (GlobalStore w) (FromAccountID req) = Some fromAccount"
    using checkSource_Inr [OF assms(2)] by simp
  have "transferMoney customerID (Some req) w = ((StatusBadRequest, H_error err), w3)"
    using assms by (simp add: transferMoney_def externalTransfer_def)
  with s a show ?thesis by simp
qed


theorem external_transfer_gateway_failure_witness:
  "transferErrors
     \<lparr>FromAccountID = ''cur1'', ToAccountID = ''bankz-acc-123'', Amount = Finite 100\<rparr> = []
   \<and> checkSource ''c1''
       \<lparr>FromAccountID = ''cur1'', ToAccountID = ''bankz-acc-123'', Amount = Finite 100\<rparr>
       bank_expiring = (Inr (''token-1'', cur1), bank_expiring\<lparr>ticks := 1\<rparr>)
   \<and> resolveDestination ''c1''
       \<lparr>FromAccountID = ''cur1'', ToAccountID = ''bankz-acc-123'', Amount = Finite 100\<rparr>
       ''token-1'' (bank_expiring\<lparr>ticks := 1\<rparr>) = (Inr External, bank_expiring\<lparr>ticks := 2\<rparr>)
   \<and> \<not> flt (a_Balance cur1) (Finite 100)
   \<and> InitiateTransfer ''cur1'' ''bankz-acc-123'' ''token-1'' (Finite 100)
       (bank_expiring\<lparr>ticks := 2\<rparr>) =
       (Inl ''invalid or expired token'', bank_expiring\<lparr>ticks := 3\<rparr>)
   \<and> transferMoney ''c1''
       (Some \<lparr>FromAccountID = ''cur1'', ToAccountID = ''bankz-acc-123'', Amount = Finite 100\<rparr>)
       bank_expiring =
       ((StatusBadRequest, H_error ''invalid or expired token''), bank_expiring\<lparr>ticks := 3\<rparr>)
   \<and> accounts (GlobalStore (bank_expiring\<lparr>ticks := 3\<rparr>)) ''cur1'' = Some cur1"
proof -
  let ?req =
    "\<lparr>FromAccountID = ''cur1'', ToAccountID = ''bankz-acc-123'', Amount = Finite 100\<rparr>"
  have e: "transferErrors ?req = []"
    by (simp add: transferErrors_def f64_0)
  have g: "GetToken bank_expiring = (Inr ''token-1'', bank_expiring\<lparr>ticks := 1\<rparr>)"
    by (simp add: GetToken_def bank_expiring_def bank_def Let_def split_def time_Now_def
        After_def)
  have c: "checkSource ''c1'' ?req bank_expiring =
      (Inr (''token-1'', cur1), bank_expiring\<lparr>ticks := 1\<rparr>)"
    using bank_store
    by (auto simp: checkSource_def store_defs g bank_expiring_store cur1_def)
  have b: "GetBalance ''bankz-acc-123'' ''token-1'' (bank_expiring\<lparr>ticks := Suc 0\<rparr>) =
      (Inr (Finite 1000), bank_expiring\<lparr>ticks := 2\<rparr>)"
    by (simp add: GetBalance_def validateToken_def bank_expiring_def bank_def Let_def split_def
        time_Now_def Before_def NewMockClient_def f64_1000)
  have r: "resolveDestination ''c1'' ?req ''token-1'' (bank_expiring\<lparr>ticks := 1\<rparr>) =
      (Inr External, bank_expiring\<lparr>ticks := 2\<rparr>)"
    using bank_store by (simp add: resolveDestination_def store_defs b bank_expiring_store)
  have f: "\<not> flt (a_Balance cur1) (Amount ?req)"
    by (simp add: cur1_def)
  have i: "InitiateTransfer (a_ID cur1) (ToAccountID ?req) ''token-1'' (Amount ?req)
      (bank_expiring\<lparr>ticks := 2\<rparr>) =
      (Inl ''invalid or expired token'', bank_expiring\<lparr>ticks := 3\<rparr>)"
    by (simp add: InitiateTransfer_def validateToken_def bank_expiring_def bank_def Let_def
        split_def time_Now_def Before_def cur1_def)
  from external_transfer_gateway_failure [OF e c r f i] e c r f i
  show ?thesis by (simp add: cur1_def bank_expiring_store)
qed

text \<open>
  C1. An internal transfer: the request passed the checks of the body, of the customer,
  of the token and of the source account, and the destination account is in the store and
  belongs to the customer. With \<open>fee = amount * 0.0005\<close> for a \<open>current\<close> source account
  and 0 otherwise, and \<open>interest = amount * 0.005\<close> for a \<open>savings\<close> destination account
  and 0 otherwise (in \<open>float64\<close> arithmetic, as everywhere): unless the source balance is
  less than \<open>amount + fee\<close>, the transfer is accepted with 201 and the new state holds the
  source account with balance \<open>balance - (amount + fee)\<close> and the destination account
  with balance \<open>balance + (amount + interest)\<close>; when the source balance is less than
  \<open>amount + fee\<close> the answer is 400 \<open>Insufficient funds\<close> and the store is unchanged.
\<close>

theorem internal_transfer_balances:
  assumes "store_ok (GlobalStore w)"
    and "transferErrors req = []"
    and "checkSource customerID req w = (Inr (tok, fromAccount), w1)"
    and "accounts (GlobalStore w) (ToAccountID req) = Some toAccount"
    and "a_CustomerID toAccount = customerID"
    and "transferMoney customerID (Some req) w = (r, w')"
    and "fee = (if a_Type fromAccount = ''current''
                then fmul (Amount req) const_0_0005 else Finite 0)"
    and "interest = (if a_Type toAccount = ''savings''
                then fmul (Amount req) const_0_005 else Finite 0)"
  shows "(\<not> flt (a_Balance fromAccount) (fadd (Amount req) fee) \<longrightarrow>
       fst r = StatusCreated
       \<and> accounts (GlobalStore w') (FromAccountID req) =
           Some (fromAccount\<lparr>a_Balance :=
             fsub (a_Balance fromAccount) (fadd (Amount req) fee)\<rparr>)
       \<and> accounts (GlobalStore w') (ToAccountID req) =
           Some (toAccount\<lparr>a_Balance :=
             fadd (a_Balance toAccount) (fadd (Amount req) interest)\<rparr>))
   \<and> (flt (a_Balance fromAccount) (fadd (Amount req) fee) \<longrightarrow>
       r = (StatusBadRequest, H_error ''Insufficient funds'')
       \<and> GlobalStore w' = GlobalStore w)"
proof -
  note src = checkSource_Inr [OF assms(3)]
  have s1: "GlobalStore w1 = GlobalStore w"
    using checkSource_frame [OF assms(3)] by simp
  have ids: "a_ID fromAccount = FromAccountID req" "a_ID toAccount = ToAccountID req"
    using assms(1,4) src by (auto simp: store_ok_def)
  have ne: "FromAccountID req \<noteq> ToAccountID req"
    using assms(2) by (auto simp: transferErrors_def split: if_splits)
  have tm: "internalTransfer customerID req fromAccount toAccount w1 = (r, w')"
    using transferMoney_internal [OF assms(2,3,4,5)] assms(6) by simp
  show ?thesis
  proof (intro conjI impI)
    assume ok: "\<not> flt (a_Balance fromAccount) (fadd (Amount req) fee)"
    note eff = internalTransfer_accepted [OF ok [unfolded assms(7)] tm]
    from eff show "fst r = StatusCreated" by simp
    from eff ids ne show "accounts (GlobalStore w') (FromAccountID req) =
           Some (fromAccount\<lparr>a_Balance :=
             fsub (a_Balance fromAccount) (fadd (Amount req) fee)\<rparr>)"
      by (simp add: assms(7))
    from eff ids ne show "accounts (GlobalStore w') (ToAccountID req) =
           Some (toAccount\<lparr>a_Balance :=
             fadd (a_Balance toAccount) (fadd (Amount req) interest)\<rparr>)"
      by (simp add: assms(8))
  next
    assume no: "flt (a_Balance fromAccount) (fadd (Amount req) fee)"
    from internalTransfer_rejected [OF no [unfolded assms(7)]] tm
    have "r = (StatusBadRequest, H_error ''Insufficient funds'')" "w' = w1"
      by simp_all
    with s1 show "r = (StatusBadRequest, H_error ''Insufficient funds'')"
      "GlobalStore w' = GlobalStore w"
      by simp_all
  qed
qed


theorem internal_transfer_balances_witness:
  "store_ok (GlobalStore bank)
   \<and> transferErrors \<lparr>FromAccountID = ''cur1'', ToAccountID = ''sav1'', Amount = Finite 100\<rparr> = []
   \<and> checkSource ''c1'' \<lparr>FromAccountID = ''cur1'', ToAccountID = ''sav1'', Amount = Finite 100\<rparr>
       bank = (Inr (''token-1700000000000000000'', cur1), bank1)
   \<and> accounts (GlobalStore bank) ''sav1'' = Some sav1 \<and> a_CustomerID sav1 = ''c1''
   \<and> \<not> flt (a_Balance cur1) (fadd (Finite 100) (fmul (Finite 100) const_0_0005))
   \<and> fst (fst (transferMoney ''c1''
        (Some \<lparr>FromAccountID = ''cur1'', ToAccountID = ''sav1'', Amount = Finite 100\<rparr>) bank))
       = StatusCreated
   \<and> accounts (GlobalStore (snd (transferMoney ''c1''
        (Some \<lparr>FromAccountID = ''cur1'', ToAccountID = ''sav1'', Amount = Finite 100\<rparr>) bank)))
        ''cur1'' = Some (cur1\<lparr>a_Balance := Finite (3958021957668045 / 4398046511104)\<rparr>)
   \<and> accounts (GlobalStore (snd (transferMoney ''c1''
        (Some \<lparr>FromAccountID = ''cur1'', ToAccountID = ''sav1'', Amount = Finite 100\<rparr>) bank)))
        ''sav1'' = Some (sav1\<lparr>a_Balance := Finite (1201 / 2)\<rparr>)
   \<and> flt (a_Balance sav1) (fadd (Finite 600) (Finite 0))
   \<and> fst (transferMoney ''c1''
        (Some \<lparr>FromAccountID = ''sav1'', ToAccountID = ''cur1'', Amount = Finite 600\<rparr>) bank)
       = (StatusBadRequest, H_error ''Insufficient funds'')"
proof -
  let ?ok = "\<lparr>FromAccountID = ''cur1'', ToAccountID = ''sav1'', Amount = Finite 100\<rparr>"
  let ?no = "\<lparr>FromAccountID = ''sav1'', ToAccountID = ''cur1'', Amount = Finite 600\<rparr>"
  have e: "transferErrors ?ok = []" "transferErrors ?no = []"
    by (simp_all add: transferErrors_def f64_0)
  have c: "checkSource ''c1'' ?ok bank = (Inr (''token-1700000000000000000'', cur1), bank1)"
    "checkSource ''c1'' ?no bank = (Inr (''token-1700000000000000000'', sav1), bank1)"
    by (simp_all add: checkSource_bank checkSource_bank_sav1)
  have d: "accounts (GlobalStore bank) (ToAccountID ?ok) = Some sav1"
    "accounts (GlobalStore bank) (ToAccountID ?no) = Some cur1"
    "a_CustomerID sav1 = ''c1''" "a_CustomerID cur1 = ''c1''"
    by (simp_all add: bank_store) (simp_all add: sav1_def cur1_def)
  have p: "transferMoney ''c1'' (Some ?ok) bank =
      (fst (transferMoney ''c1'' (Some ?ok) bank), snd (transferMoney ''c1'' (Some ?ok) bank))"
    "transferMoney ''c1'' (Some ?no) bank =
      (fst (transferMoney ''c1'' (Some ?no) bank), snd (transferMoney ''c1'' (Some ?no) bank))"
    by simp_all
  have r1: "fst (fst (transferMoney ''c1'' (Some ?ok) bank)) = StatusCreated
    \<and> accounts (GlobalStore (snd (transferMoney ''c1'' (Some ?ok) bank))) ''cur1'' =
        Some (cur1\<lparr>a_Balance := Finite (3958021957668045 / 4398046511104)\<rparr>)
    \<and> accounts (GlobalStore (snd (transferMoney ''c1'' (Some ?ok) bank))) ''sav1'' =
        Some (sav1\<lparr>a_Balance := Finite (1201 / 2)\<rparr>)"
    using internal_transfer_balances [OF store_ok_bank e(1) c(1) d(1) d(3) p(1) refl refl]
    by (simp add: cur1_def sav1_def const_0_0005_eq const_0_005_eq fsub_def round64_values)
  have r2: "fst (transferMoney ''c1'' (Some ?no) bank) =
      (StatusBadRequest, H_error ''Insufficient funds'')"
    using internal_transfer_balances [OF store_ok_bank e(2) c(2) d(2) d(4) p(2) refl refl]
    by (simp add: cur1_def sav1_def round64_values)
  show ?thesis
    using store_ok_bank e(1) c(1) d(1,3) r1 r2
    by (simp add: const_0_0005_eq round64_values cur1_def sav1_def)
qed

text \<open>
  C9. A transfer of 200.0 from a current account with balance 1000 to a savings account
  of the same customer: the fee is \<open>200 * 0.0005 = 0.1\<close> and the interest
  \<open>200 * 0.005 = 1.0\<close>, the \<^verbatim>\<open>float64\<close> numbers that the constants \<^verbatim>\<open>0.1\<close> and
  \<^verbatim>\<open>1.0\<close> denote; the new balance of the current account is the number that
  \<^verbatim>\<open>799.9\<close> denotes; the balance of the savings account is increased by 201; and three
  transactions are recorded, a \<open>transfer\<close> of 200, a \<open>fee\<close> of 0.1 and an \<open>interest\<close> of 1.
\<close>

theorem transfer_200_current_to_savings:
  assumes "store_ok (GlobalStore w)"
    and "transferErrors req = []"
    and "checkSource customerID req w = (Inr (tok, fromAccount), w1)"
    and "accounts (GlobalStore w) (ToAccountID req) = Some toAccount"
    and "a_CustomerID toAccount = customerID"
    and "Amount req = f64 200"
    and "a_Type fromAccount = ''current''"
    and "a_Balance fromAccount = f64 1000"
    and "a_Type toAccount = ''savings''"
    and "transferMoney customerID (Some req) w = (r, w')"
    and "u = (\<lambda>i. uuid_source w (uuid_count w + i))"
    and "now = clock w1 (ticks w1)"
  shows "fmul (Amount req) const_0_0005 = f64 (1 / 10)
    \<and> fmul (Amount req) const_0_005 = f64 1
    \<and> r = (StatusCreated, TransferDone (u 0) ''success'')
    \<and> accounts (GlobalStore w') (FromAccountID req) =
        Some (fromAccount\<lparr>a_Balance := f64 (7999 / 10)\<rparr>)
    \<and> accounts (GlobalStore w') (ToAccountID req) =
        Some (toAccount\<lparr>a_Balance := fadd (a_Balance toAccount) (f64 201)\<rparr>)
    \<and> transactions (GlobalStore w') = (transactions (GlobalStore w))
        (u 0 \<mapsto> \<lparr>t_ID = u 0, t_AccountID = FromAccountID req, t_CustomerID = customerID,
             t_Type = ''transfer'', t_Amount = f64 200, t_FromAccountID = FromAccountID req,
             t_ToAccountID = ToAccountID req, t_CreatedAt = now\<rparr>,
         u 1 \<mapsto> \<lparr>t_ID = u 1, t_AccountID = FromAccountID req, t_CustomerID = customerID,
             t_Type = ''fee'', t_Amount = f64 (1 / 10), t_FromAccountID = [],
             t_ToAccountID = [], t_CreatedAt = now\<rparr>,
         u 2 \<mapsto> \<lparr>t_ID = u 2, t_AccountID = ToAccountID req, t_CustomerID = customerID,
             t_Type = ''interest'', t_Amount = f64 1, t_FromAccountID = [],
             t_ToAccountID = [], t_CreatedAt = now\<rparr>)"
proof -
  note src = checkSource_Inr [OF assms(3)]
  note fr = checkSource_frame [OF assms(3)]
  have ids: "a_ID fromAccount = FromAccountID req" "a_ID toAccount = ToAccountID req"
    using assms(1,4) src by (auto simp: store_ok_def)
  have ne: "FromAccountID req \<noteq> ToAccountID req"
    using assms(2) by (auto simp: transferErrors_def split: if_splits)
  have fee: "fmul (Amount req) const_0_0005 = f64 (1 / 10)"
    by (simp add: assms(6) f64_values const_0_0005_eq round64_values)
  have interest: "fmul (Amount req) const_0_005 = f64 1"
    by (simp add: assms(6) f64_values const_0_005_eq round64_values)
  have total: "fadd (Amount req) (f64 (1 / 10)) = Finite (7040392854975283 / 35184372088832)"
    by (simp add: assms(6) f64_values round64_values)
  have debit: "fsub (a_Balance fromAccount) (Finite (7040392854975283 / 35184372088832)) =
      f64 (7999 / 10)"
    by (simp add: assms(8) fsub_def f64_values round64_values)
  have credit: "fadd (Amount req) (f64 1) = f64 201"
    by (simp add: assms(6) f64_values round64_values)
  have pos: "fgt (f64 (1 / 10)) (Finite 0)" "fgt (f64 1) (Finite 0)"
    by (simp_all add: fgt_def f64_values)
  have ok: "\<not> flt (a_Balance fromAccount)
     (fadd (Amount req) (if a_Type fromAccount = ''current''
        then fmul (Amount req) const_0_0005 else Finite 0))"
    by (simp add: assms(7) fee total) (simp add: assms(8) f64_values)
  have tm: "internalTransfer customerID req fromAccount toAccount w1 = (r, w')"
    using transferMoney_internal [OF assms(2,3,4,5)] assms(10) by simp
  note acc = internalTransfer_accepted [OF ok tm]
  note tx = internalTransfer_transactions [OF _ tm refl refl refl refl refl]
  have "transactions (GlobalStore w') = (transactions (GlobalStore w))
        (u 0 \<mapsto> \<lparr>t_ID = u 0, t_AccountID = FromAccountID req, t_CustomerID = customerID,
             t_Type = ''transfer'', t_Amount = f64 200, t_FromAccountID = FromAccountID req,
             t_ToAccountID = ToAccountID req, t_CreatedAt = now\<rparr>,
         u 1 \<mapsto> \<lparr>t_ID = u 1, t_AccountID = FromAccountID req, t_CustomerID = customerID,
             t_Type = ''fee'', t_Amount = f64 (1 / 10), t_FromAccountID = [],
             t_ToAccountID = [], t_CreatedAt = now\<rparr>,
         u 2 \<mapsto> \<lparr>t_ID = u 2, t_AccountID = ToAccountID req, t_CustomerID = customerID,
             t_Type = ''interest'', t_Amount = f64 1, t_FromAccountID = [],
             t_ToAccountID = [], t_CreatedAt = now\<rparr>)"
    using tx ok fr pos
    by (simp add: assms(7,9,11,12) fee interest ids assms(6) [symmetric])
  moreover have "r = (StatusCreated, TransferDone (u 0) ''success'')"
    using acc fr by (simp add: assms(11))
  moreover have "accounts (GlobalStore w') (FromAccountID req) =
        Some (fromAccount\<lparr>a_Balance := f64 (7999 / 10)\<rparr>)"
    using acc fr ids ne by (simp add: assms(7,9) fee total debit)
  moreover have "accounts (GlobalStore w') (ToAccountID req) =
        Some (toAccount\<lparr>a_Balance := fadd (a_Balance toAccount) (f64 201)\<rparr>)"
    using acc fr ids ne by (simp add: assms(7,9) interest credit)
  ultimately show ?thesis
    using fee interest by simp
qed


theorem transfer_200_current_to_savings_witness:
  "store_ok (GlobalStore bank)
   \<and> transferErrors \<lparr>FromAccountID = ''cur1'', ToAccountID = ''sav1'', Amount = f64 200\<rparr> = []
   \<and> checkSource ''c1'' \<lparr>FromAccountID = ''cur1'', ToAccountID = ''sav1'', Amount = f64 200\<rparr>
       bank = (Inr (''token-1700000000000000000'', cur1), bank1)
   \<and> accounts (GlobalStore bank) ''sav1'' = Some sav1 \<and> a_CustomerID sav1 = ''c1''
   \<and> a_Type cur1 = ''current'' \<and> a_Balance cur1 = f64 1000 \<and> a_Type sav1 = ''savings''
   \<and> fst (transferMoney ''c1''
        (Some \<lparr>FromAccountID = ''cur1'', ToAccountID = ''sav1'', Amount = f64 200\<rparr>) bank)
       = (StatusCreated, TransferDone ''uuid-0'' ''success'')
   \<and> accounts (GlobalStore (snd (transferMoney ''c1''
        (Some \<lparr>FromAccountID = ''cur1'', ToAccountID = ''sav1'', Amount = f64 200\<rparr>) bank)))
        ''cur1'' = Some (cur1\<lparr>a_Balance := f64 (7999 / 10)\<rparr>)
   \<and> accounts (GlobalStore (snd (transferMoney ''c1''
        (Some \<lparr>FromAccountID = ''cur1'', ToAccountID = ''sav1'', Amount = f64 200\<rparr>) bank)))
        ''sav1'' = Some (sav1\<lparr>a_Balance := Finite 701\<rparr>)
   \<and> map_option t_Type (transactions (GlobalStore (snd (transferMoney ''c1''
        (Some \<lparr>FromAccountID = ''cur1'', ToAccountID = ''sav1'', Amount = f64 200\<rparr>) bank)))
        ''uuid-1'') = Some ''fee''"
proof -
  let ?req = "\<lparr>FromAccountID = ''cur1'', ToAccountID = ''sav1'', Amount = f64 200\<rparr>"
  have e: "transferErrors ?req = []"
    by (simp add: transferErrors_def f64_0 f64_values)
  have c: "checkSource ''c1'' ?req bank = (Inr (''token-1700000000000000000'', cur1), bank1)"
    by (simp add: checkSource_bank)
  have d: "accounts (GlobalStore bank) (ToAccountID ?req) = Some sav1"
    "a_CustomerID sav1 = ''c1''" "Amount ?req = f64 200"
    "a_Type cur1 = ''current''" "a_Balance cur1 = f64 1000" "a_Type sav1 = ''savings''"
    by (simp_all add: bank_store) (simp_all add: sav1_def cur1_def f64_values)
  have p: "transferMoney ''c1'' (Some ?req) bank =
      (fst (transferMoney ''c1'' (Some ?req) bank), snd (transferMoney ''c1'' (Some ?req) bank))"
    by simp
  have u: "uuid_source bank (uuid_count bank + 0) = ''uuid-0''"
    "uuid_source bank (uuid_count bank + 1) = ''uuid-1''"
    "uuid_source bank (uuid_count bank + 2) = ''uuid-2''"
    by (simp_all add: bank_def digits_numeral)
  have credit: "fadd (a_Balance sav1) (f64 201) = Finite 701"
    by (simp add: sav1_def f64_values round64_values)
  have distinct: "''uuid-1'' \<noteq> ''uuid-2''"
    by simp
  from transfer_200_current_to_savings
    [OF store_ok_bank e c d(1) d(2) d(3) d(4) d(5) d(6) p refl refl]
  show ?thesis
    using store_ok_bank e c d u credit by simp
qed

text \<open>
  C3. After every committed transfer (the answer is 201), internal or external, the
  balance of the source account is not below zero: the debit is made only when the
  balance is not less than the amount debited (\<open>amount + fee\<close>, or \<open>amount\<close> for an
  external transfer), and the difference of two such \<^verbatim>\<open>float64\<close> numbers is never
  negative. When the old balance is a finite number and the amount is a number, the new
  balance is greater than or equal to 0.
\<close>

theorem committed_transfer_nonnegative:
  assumes "store_ok (GlobalStore w)"
    and "transferMoney customerID body w = ((StatusCreated, j), w')"
  shows "\<exists>req fromAccount fromAccount'.
      body = Some req
    \<and> accounts (GlobalStore w) (FromAccountID req) = Some fromAccount
    \<and> accounts (GlobalStore w') (FromAccountID req) = Some fromAccount'
    \<and> \<not> flt (a_Balance fromAccount') (Finite 0)
    \<and> ((\<exists>x. a_Balance fromAccount = Finite x) \<and> Amount req \<noteq> NaN \<longrightarrow>
         fle (Finite 0) (a_Balance fromAccount'))"
  using assms(2)
proof (cases rule: transferMoney_Created)
  case (1 req tok fromAccount w1 w2 toAccount)
  note src = checkSource_Inr [OF 1(3)]
  note dst = resolveDestination_Internal [OF 1(4)]
  have s: "GlobalStore w2 = GlobalStore w"
    using checkSource_frame [OF 1(3)] dst by simp
  have ids: "a_ID fromAccount = FromAccountID req" "a_ID toAccount = ToAccountID req"
    using assms(1) src dst s checkSource_frame [OF 1(3)] by (auto simp: store_ok_def)
  have ne: "FromAccountID req \<noteq> ToAccountID req"
    using 1(2) by (auto simp: transferErrors_def split: if_splits)
  define total where "total = fadd (Amount req) (if a_Type fromAccount = ''current''
        then fmul (Amount req) const_0_0005 else Finite 0)"
  have ok: "\<not> flt (a_Balance fromAccount) total"
    unfolding total_def by (rule internalTransfer_Created [OF 1(5)])
  note acc = internalTransfer_accepted [OF ok [unfolded total_def] 1(5)]
  have new: "accounts (GlobalStore w') (FromAccountID req) =
      Some (fromAccount\<lparr>a_Balance := fsub (a_Balance fromAccount) total\<rparr>)"
    using acc ids ne by (simp add: total_def)
  have "fle (Finite 0) (fsub (a_Balance fromAccount) total)"
    if "\<exists>x. a_Balance fromAccount = Finite x" "Amount req \<noteq> NaN"
  proof -
    from that(1) obtain x where x: "a_Balance fromAccount = Finite x" ..
    have "total \<noteq> NaN"
      unfolding total_def using that(2) by (rule total_not_NaN)
    with ok x show ?thesis by (rule fsub_nonneg)
  qed
  with 1(1) src new fsub_not_below_zero [OF ok] show ?thesis by simp
next
  case (2 req tok fromAccount w1 w2)
  note src = checkSource_Inr [OF 2(3)]
  have s: "GlobalStore w2 = GlobalStore w"
    using checkSource_frame [OF 2(3)] resolveDestination_frame [OF 2(4)] by simp
  have ids: "a_ID fromAccount = FromAccountID req"
    using assms(1) src by (auto simp: store_ok_def)
  from externalTransfer_Created [OF 2(5)]
  have ok: "\<not> flt (a_Balance fromAccount) (Amount req)"
    and new: "accounts (GlobalStore w') (FromAccountID req) =
      Some (fromAccount\<lparr>a_Balance := fsub (a_Balance fromAccount) (Amount req)\<rparr>)"
    using ids by auto
  have "fle (Finite 0) (fsub (a_Balance fromAccount) (Amount req))"
    if "\<exists>x. a_Balance fromAccount = Finite x" "Amount req \<noteq> NaN"
    using that ok fsub_nonneg by blast
  with 2(1) src new fsub_not_below_zero [OF ok] show ?thesis by simp
qed

theorem committed_transfer_nonnegative_witness:
  "store_ok (GlobalStore bank)
   \<and> fst (fst (transferMoney ''c1''
       (Some \<lparr>FromAccountID = ''cur1'', ToAccountID = ''sav1'', Amount = Finite 200\<rparr>) bank))
      = StatusCreated
   \<and> a_Balance (the (accounts (GlobalStore bank) ''cur1'')) = Finite 1000
   \<and> (\<exists>fromAccount'.
        accounts (GlobalStore (snd (transferMoney ''c1''
          (Some \<lparr>FromAccountID = ''cur1'', ToAccountID = ''sav1'', Amount = Finite 200\<rparr>) bank)))
          ''cur1'' = Some fromAccount'
        \<and> fle (Finite 0) (a_Balance fromAccount'))"
proof -
  let ?req = "\<lparr>FromAccountID = ''cur1'', ToAccountID = ''sav1'', Amount = Finite 200\<rparr>"
  have e: "transferErrors ?req = []"
    by (simp add: transferErrors_def f64_0)
  have r: "resolveDestination ''c1'' ?req ''token-1700000000000000000'' bank1 =
      (Inr (Internal sav1), bank1)"
    using bank_store by (simp add: resolveDestination_def store_defs sav1_def)
  have i: "fst (internalTransfer ''c1'' ?req cur1 sav1 bank1) =
      (StatusCreated, TransferDone ''uuid-0'' ''success'')"
    by (simp add: internalTransfer_def Let_def split_def cur1_def sav1_def const_0_0005_eq
        round64_values time_Now_def uuid_New_def bank1_def bank_def digits_numeral)
  have h: "fst (transferMoney ''c1'' (Some ?req) bank) =
      (StatusCreated, TransferDone ''uuid-0'' ''success'')"
    using i by (simp add: transferMoney_def e checkSource_bank r)
  then have t: "transferMoney ''c1'' (Some ?req) bank =
      ((StatusCreated, TransferDone ''uuid-0'' ''success''),
       snd (transferMoney ''c1'' (Some ?req) bank))"
    by (simp add: prod_eq_iff)
  from committed_transfer_nonnegative [OF store_ok_bank t]
  obtain fromAccount' where
    "accounts (GlobalStore (snd (transferMoney ''c1'' (Some ?req) bank))) ''cur1'' =
       Some fromAccount'"
    "fle (Finite 0) (a_Balance fromAccount')"
    using bank_store by (auto simp: cur1_def)
  then show ?thesis
    using store_ok_bank h bank_store by (auto simp: cur1_def)
qed




text \<open>
  C5. Transaction records are to be immutable once stored, under IDs that are never
  used twice. The IDs of the bonus, transfer, fee and interest records come from
  \<^verbatim>\<open>uuid.New()\<close>; the ID of a transfer to the partner bank is \<open>bankz-tx-\<close> followed by
  the clock reading of \<open>InitiateTransfer\<close>. Two such transfers that read the same clock
  value are both answered 201 with the same transaction ID: the first debits account
  \<open>cur1\<close> by 100 and its record is stored; the second, of 50 from account \<open>sav1\<close>, is
  stored under that same ID, so that the record of the first transfer is no longer in
  the store, while its debit stays (the balance of \<open>cur1\<close> is 900).
\<close>

theorem transaction_replaced:
  "fst first_transfer =
     (StatusCreated, TransferDone ''bankz-tx-1700000000000000000'' ''success'')
   \<and> transactions (GlobalStore (snd first_transfer)) ''bankz-tx-1700000000000000000'' =
     Some \<lparr>t_ID = ''bankz-tx-1700000000000000000'', t_AccountID = ''cur1'',
          t_CustomerID = ''c1'', t_Type = ''bankz_transfer'',
          t_Amount = Finite 100, t_FromAccountID = ''cur1'',
          t_ToAccountID = ''bankz-acc-123'', t_CreatedAt = 1700000000000000000\<rparr>
   \<and> fst second_transfer =
     (StatusCreated, TransferDone ''bankz-tx-1700000000000000000'' ''success'')
   \<and> transactions (GlobalStore (snd second_transfer)) ''bankz-tx-1700000000000000000'' =
     Some \<lparr>t_ID = ''bankz-tx-1700000000000000000'', t_AccountID = ''sav1'',
          t_CustomerID = ''c1'', t_Type = ''bankz_transfer'',
          t_Amount = Finite 50, t_FromAccountID = ''sav1'',
          t_ToAccountID = ''bankz-acc-456'', t_CreatedAt = 1700000000000000000\<rparr>
   \<and> accounts (GlobalStore (snd second_transfer)) ''cur1'' =
     Some (cur1\<lparr>a_Balance := Finite 900\<rparr>)"
  by (simp add: first_transfer_eq [THEN arg_cong, of fst] second_transfer_eq
      after_first_facts)

end
